theory Spec2Isabelle
  imports Main
begin

section \<open>Python values used by gpio\_bridge.py\<close>

text \<open>
  Strings are lists of characters.  \<open>str.lower\<close> and \<open>str.upper\<close> are modelled on the
  ASCII letters and leave every other character unchanged; the strings the program
  passes to them (key tokens compared with \<open>'q'\<close>, button names) are ASCII.
\<close>

definition py_lower_char :: "char \<Rightarrow> char" where
  "py_lower_char c =
     (case map_of (zip ''ABCDEFGHIJKLMNOPQRSTUVWXYZ'' ''abcdefghijklmnopqrstuvwxyz'') c of
        Some l \<Rightarrow> l | None \<Rightarrow> c)"

definition py_upper_char :: "char \<Rightarrow> char" where
  "py_upper_char c =
     (case map_of (zip ''abcdefghijklmnopqrstuvwxyz'' ''ABCDEFGHIJKLMNOPQRSTUVWXYZ'') c of
        Some u \<Rightarrow> u | None \<Rightarrow> c)"

definition py_lower :: "string \<Rightarrow> string" where
  "py_lower s = map py_lower_char s"

definition py_upper :: "string \<Rightarrow> string" where
  "py_upper s = map py_upper_char s"

text \<open>\<open>str(n)\<close> for an integer: decimal digits, with a minus sign when negative.\<close>

definition digit_char :: "nat \<Rightarrow> char" where
  "digit_char d = ''0123456789'' ! d"

fun str_nat :: "nat \<Rightarrow> string" where
  "str_nat n = (if n < 10 then [digit_char n] else str_nat (n div 10) @ [digit_char (n mod 10)])"

declare str_nat.simps [simp del]

definition str_int :: "int \<Rightarrow> string" where
  "str_int i = (if i < 0 then CHR ''-'' # str_nat (nat (- i)) else str_nat (nat i))"

text \<open>The escape character \<open>'\x1b'\<close>, carriage return \<open>'\r'\<close> and newline \<open>'\n'\<close>.\<close>

definition ESC :: char where
  "ESC = CHR 0x1B"

definition CR :: char where
  "CR = CHR 0x0D"

definition LF :: char where
  "LF = CHR 0x0A"


section \<open>The pin registry and the key mapping\<close>

text \<open>
  The three dictionaries built by \<open>GPIOBridge.__init__\<close>.  A Python dictionary keeps its
  insertion order and the program iterates over \<open>gpio_pins.items()\<close>, so each one is an
  association list in the order of the source; \<open>d[k]\<close> and \<open>k in d\<close> are \<open>map_of d k\<close>.
\<close>

definition board_to_bcm :: "(int \<times> int) list" where
  "board_to_bcm =
     [(31, 6), (35, 19), (29, 5), (37, 26), (33, 13), (40, 21), (38, 20), (36, 16)]"

definition gpio_pins :: "(string \<times> int) list" where
  "gpio_pins =
     [(''up'', 31), (''down'', 35), (''left'', 29), (''right'', 37),
      (''press'', 33), (''key1'', 40), (''key2'', 38), (''key3'', 36)]"

definition key_mapping :: "(string \<times> string) list" where
  "key_mapping =
     [([ESC, CHR ''['', CHR ''A''], ''up''),
      ([ESC, CHR ''['', CHR ''B''], ''down''),
      ([ESC, CHR ''['', CHR ''D''], ''left''),
      ([ESC, CHR ''['', CHR ''C''], ''right''),
      ('' '', ''press''),
      ([CR], ''press''),
      (''1'', ''key1''),
      (''2'', ''key2''),
      (''3'', ''key3''),
      (''w'', ''up''),
      (''s'', ''down''),
      (''a'', ''left''),
      (''d'', ''right''),
      (''q'', ''quit'')]"

text \<open>\<open>self.button_press_duration = 0.1\<close> seconds, in milliseconds.\<close>

definition button_press_duration :: nat where
  "button_press_duration = 100"



section \<open>The environment: terminal, sysfs files, log, clock\<close>

text \<open>
  Everything the program does to the outside is recorded, in order, in a trace of
  events: log records, lines printed, writes to sysfs files (successful or raising),
  sleeps, and threads started.
\<close>

datatype log_level = INFO | WARNING | ERROR

datatype event =
    Log log_level string
  | Print string
  | FileWrite string string
  | FileWriteFailed string string
  | Sleep nat
  | ThreadStart string int

text \<open>
  Exceptions: \<open>KeyboardInterrupt\<close> (not a subclass of \<open>Exception\<close>), and any subclass
  of \<open>Exception\<close> with the text \<open>str(e)\<close>.
\<close>

datatype exn = KeyboardInterrupt | Exception string

text \<open>
  What a call does: it returns a value, raises, or never returns (a blocking read on a
  terminal that delivers nothing more).
\<close>

datatype 'a outcome = Returned 'a | Raised exn | Blocked

text \<open>
  The terminal delivers, at given times (milliseconds), either a character or an
  exception raised in the waiting call (a signal, an I/O error).  The terminal stays
  open: after the last item nothing more arrives.
\<close>

datatype tty_event = Byte char | Fault exn

text \<open>The terminal attributes \<open>tty.setraw\<close> changes (a part of the termios settings).\<close>

record termios =
  echo :: bool
  icanon :: bool
  isig :: bool
  opost :: bool
  vmin :: nat
  vtime :: nat

text \<open>
  \<open>stdin_q\<close>: the pending and future terminal input, each item with its arrival time;
  \<open>clock\<close>: the time in milliseconds; \<open>tty_attr\<close>: the terminal's current settings;
  \<open>gpio_dirs\<close>: the chip pins whose directory \<open>/sys/class/gpio/gpioN\<close> exists;
  \<open>io_faults\<close>: for the successive file writes to come, whether the write raises (with
  the text of the exception) or succeeds (an exhausted list means success);
  \<open>trace\<close>: the events so far; \<open>is_running\<close>: the attribute \<open>self.is_running\<close>;
  \<open>is_tty\<close>: whether standard input is a terminal; \<open>tty_faults\<close>: for the successive
  calls of \<open>termios.tcsetattr\<close> to come, whether the call raises (with the text of the
  exception, as when the terminal has hung up) or succeeds (an exhausted list means
  success).
\<close>

record world =
  stdin_q :: "(nat \<times> tty_event) list"
  clock :: nat
  tty_attr :: termios
  gpio_dirs :: "int list"
  io_faults :: "string option list"
  trace :: "event list"
  is_running :: bool
  is_tty :: bool
  tty_faults :: "string option list"

definition emit :: "event \<Rightarrow> world \<Rightarrow> world" where
  "emit e w = w\<lparr>trace := trace w @ [e]\<rparr>"

definition logger_info :: "string \<Rightarrow> world \<Rightarrow> world" where
  "logger_info msg w = emit (Log INFO msg) w"

definition logger_warning :: "string \<Rightarrow> world \<Rightarrow> world" where
  "logger_warning msg w = emit (Log WARNING msg) w"

definition logger_error :: "string \<Rightarrow> world \<Rightarrow> world" where
  "logger_error msg w = emit (Log ERROR msg) w"

definition print_line :: "string \<Rightarrow> world \<Rightarrow> world" where
  "print_line s w = emit (Print s) w"

text \<open>\<open>time.sleep\<close>, in milliseconds.\<close>

definition time_sleep :: "nat \<Rightarrow> world \<Rightarrow> world" where
  "time_sleep ms w = emit (Sleep ms) (w\<lparr>clock := clock w + ms\<rparr>)"

text \<open>
  \<open>with open(path, 'w') as f: f.write(data)\<close>: the next entry of \<open>io_faults\<close> decides
  whether the write reaches the file or an exception is raised; \<open>Inl\<close> carries the text
  of the exception.
\<close>

definition next_fault :: "world \<Rightarrow> string option" where
  "next_fault w = (case io_faults w of [] \<Rightarrow> None | f # _ \<Rightarrow> f)"

definition write_file :: "string \<Rightarrow> string \<Rightarrow> world \<Rightarrow> (string + unit) \<times> world" where
  "write_file path data w =
     (case next_fault w of
        None \<Rightarrow> (Inr (), emit (FileWrite path data) (w\<lparr>io_faults := tl (io_faults w)\<rparr>))
      | Some msg \<Rightarrow>
          (Inl msg, emit (FileWriteFailed path data) (w\<lparr>io_faults := tl (io_faults w)\<rparr>)))"


section \<open>The pin driver and the pulse\<close>

definition value_path :: "int \<Rightarrow> string" where
  "value_path bcm_pin = ''/sys/class/gpio/gpio'' @ str_int bcm_pin @ ''/value''"

text \<open>
  \<open>gpio_write\<close>: a missing key in \<open>board_to_bcm\<close> raises \<open>KeyError\<close>, whose text is the
  key; like a failing file write it is caught, logged, and turned into \<open>False\<close>.
\<close>

definition gpio_write :: "int \<Rightarrow> int \<Rightarrow> world \<Rightarrow> bool \<times> world" where
  "gpio_write board_pin val w =
     (case map_of board_to_bcm board_pin of
        None \<Rightarrow>
          (False, logger_error
             (''Failed to write to GPIO '' @ str_int board_pin @ '': '' @ str_int board_pin) w)
      | Some bcm_pin \<Rightarrow>
          (case write_file (value_path bcm_pin) (str_int val) w of
             (Inr _, w1) \<Rightarrow> (True, w1)
           | (Inl e, w1) \<Rightarrow>
               (False, logger_error
                  (''Failed to write to GPIO '' @ str_int board_pin @ '': '' @ e) w1)))"

text \<open>
  \<open>simulate_button_press\<close>, lines 127 to 131: the log record, the defensive HIGH write
  (its result is not looked at) and the settle delay of 10 ms.
\<close>

definition pulse_settle :: "string \<Rightarrow> int \<Rightarrow> world \<Rightarrow> world" where
  "pulse_settle action pin w =
     (let w1 = logger_info
                 (''Simulating '' @ py_upper action @ '' button press on Board pin '' @ str_int pin) w;
          (_, w2) = gpio_write pin 1 w1
      in time_sleep 10 w2)"

text \<open>
  \<open>simulate_button_press\<close>, whole.  Nothing in its body raises (\<open>gpio_write\<close> catches
  every \<open>Exception\<close>), so the outer handler is never entered.
\<close>

definition simulate_button_press :: "string \<Rightarrow> int \<Rightarrow> world \<Rightarrow> world" where
  "simulate_button_press action pin w =
     (let w3 = pulse_settle action pin w;
          (pressed, w4) = gpio_write pin 0 w3
      in if pressed then
           (let w5 = logger_info
                       (''  Button '' @ py_upper action @ '' pressed (Board '' @ str_int pin @ '' -> LOW)'') w4;
                w6 = time_sleep button_press_duration w5;
                (released, w7) = gpio_write pin 1 w6
            in if released then
                 logger_info
                   (''  Button '' @ py_upper action @ '' released (Board '' @ str_int pin @ '' -> HIGH)'') w7
               else logger_error (''  Failed to release button '' @ py_upper action) w7)
         else logger_error (''  Failed to press button '' @ py_upper action) w4)"

text \<open>\<open>cleanup_gpio\<close>: the loop over \<open>gpio_pins.items()\<close>, then the whole function.\<close>

fun cleanup_pins :: "(string \<times> int) list \<Rightarrow> world \<Rightarrow> world" where
  "cleanup_pins [] w = w"
| "cleanup_pins ((action, pin) # rest) w =
     (let (_, w1) = gpio_write pin 1 w;
          w2 = logger_info
                 (''  Set '' @ py_upper action @ '' (Board '' @ str_int pin @ '') to HIGH'') w1
      in cleanup_pins rest w2)"

definition cleanup_gpio :: "world \<Rightarrow> world" where
  "cleanup_gpio w =
     (let w1 = logger_info ''Starting safe GPIO cleanup...'' w;
          w2 = cleanup_pins gpio_pins w1;
          w3 = time_sleep 100 w2
      in logger_info ''GPIO cleanup completed (pins left in HIGH state)'' w3)"


section \<open>The key decoder\<close>

text \<open>
  \<open>select.select([sys.stdin], [], [], timeout)\<close> waits until the terminal has something
  to deliver or the timeout has passed, and returns the tuple \<open>(rlist, wlist, xlist)\<close>:
  a sequence of three lists of descriptors, the first holding \<open>sys.stdin\<close> (descriptor 0)
  when input is ready, all three empty on timeout.  An exception that arrives while it
  waits is raised there.
\<close>

definition select_stdin :: "nat \<Rightarrow> world \<Rightarrow> nat list list outcome \<times> world" where
  "select_stdin timeout w =
     (case stdin_q w of
        [] \<Rightarrow> (Returned [[], [], []], w\<lparr>clock := clock w + timeout\<rparr>)
      | (t, ev) # rest \<Rightarrow>
          if t \<le> clock w + timeout then
            (case ev of
               Byte c \<Rightarrow> (Returned [[0], [], []], w\<lparr>clock := max (clock w) t\<rparr>)
             | Fault e \<Rightarrow> (Raised e, w\<lparr>clock := max (clock w) t, stdin_q := rest\<rparr>))
          else (Returned [[], [], []], w\<lparr>clock := clock w + timeout\<rparr>))"

text \<open>
  The truth value Python gives a tuple or list in \<open>if\<close>: true unless it has no element.
\<close>

definition py_truthy :: "'a list \<Rightarrow> bool" where
  "py_truthy xs = (xs \<noteq> [])"

text \<open>
  \<open>sys.stdin.read(1)\<close> on the terminal in raw mode: it waits, without a time limit,
  for the next character; when none will ever arrive it never returns.
\<close>

definition stdin_read1 :: "world \<Rightarrow> string outcome \<times> world" where
  "stdin_read1 w =
     (case stdin_q w of
        [] \<Rightarrow> (Blocked, w)
      | (t, ev) # rest \<Rightarrow>
          (case ev of
             Byte c \<Rightarrow> (Returned [c], w\<lparr>clock := max (clock w) t, stdin_q := rest\<rparr>)
           | Fault e \<Rightarrow> (Raised e, w\<lparr>clock := max (clock w) t, stdin_q := rest\<rparr>)))"

text \<open>
  \<open>termios.tcsetattr(fd, when, attributes)\<close>.  With \<open>TCSAFLUSH\<close> the change also
  discards the input that is pending, that is, the characters that have arrived and
  have not been read; with \<open>TCSADRAIN\<close> the input is kept.  The next entry of
  \<open>tty_faults\<close> decides whether the call raises; a call that raises changes nothing.
\<close>

datatype tc_when = TCSADRAIN | TCSAFLUSH

definition next_tty_fault :: "world \<Rightarrow> string option" where
  "next_tty_fault w = (case tty_faults w of [] \<Rightarrow> None | f # _ \<Rightarrow> f)"

definition discard_pending :: "world \<Rightarrow> (nat \<times> tty_event) list" where
  "discard_pending w =
     dropWhile (\<lambda>(t, ev). t \<le> clock w \<and> (case ev of Byte _ \<Rightarrow> True | Fault _ \<Rightarrow> False))
       (stdin_q w)"

definition tcsetattr :: "tc_when \<Rightarrow> termios \<Rightarrow> world \<Rightarrow> unit outcome \<times> world" where
  "tcsetattr opt attrs w =
     (case next_tty_fault w of
        Some msg \<Rightarrow> (Raised (Exception msg), w\<lparr>tty_faults := tl (tty_faults w)\<rparr>)
      | None \<Rightarrow>
          (Returned (),
           w\<lparr>tty_faults := tl (tty_faults w), tty_attr := attrs,
             stdin_q := (case opt of TCSAFLUSH \<Rightarrow> discard_pending w | TCSADRAIN \<Rightarrow> stdin_q w)\<rparr>))"

text \<open>
  \<open>tty.setraw(fd)\<close>: it reads the settings, switches off echo, line editing, signal
  keys and output processing, and installs the result with \<open>TCSAFLUSH\<close>.
\<close>

definition tty_setraw :: "world \<Rightarrow> unit outcome \<times> world" where
  "tty_setraw w =
     tcsetattr TCSAFLUSH
       ((tty_attr w)\<lparr>echo := False, icanon := False, isig := False, opost := False,
                     vmin := 1, vtime := 0\<rparr>) w"

text \<open>Sequencing: the next statement runs only when the call returned.\<close>

definition and_then ::
  "'a outcome \<times> world \<Rightarrow> ('a \<Rightarrow> world \<Rightarrow> 'b outcome \<times> world) \<Rightarrow> 'b outcome \<times> world" where
  "and_then m f =
     (case m of
        (Returned x, w) \<Rightarrow> f x w
      | (Raised e, w) \<Rightarrow> (Raised e, w)
      | (Blocked, w) \<Rightarrow> (Blocked, w))"

text \<open>The body of the \<open>try\<close> block of \<open>get_char\<close>; \<open>None\<close> is Python's \<open>None\<close>.\<close>

definition get_char_try :: "world \<Rightarrow> string option outcome \<times> world" where
  "get_char_try w0 =
     and_then (tty_setraw w0) (\<lambda>_ w.
       and_then (select_stdin 100 w) (\<lambda>r1 w.
         if py_truthy r1 then
           and_then (stdin_read1 w) (\<lambda>ch w.
             if ch = [ESC] then
               and_then (select_stdin 100 w) (\<lambda>r2 w.
                 if py_truthy r2 then
                   and_then (stdin_read1 w) (\<lambda>c2 w.
                     and_then (select_stdin 100 w) (\<lambda>r3 w.
                       if py_truthy r3 then
                         and_then (stdin_read1 w) (\<lambda>c3 w.
                           (Returned (Some ((ch @ c2) @ c3)), w))
                       else (Returned (Some (ch @ c2)), w)))
                 else (Returned (Some ch), w))
             else (Returned (Some ch), w))
         else (Returned None, w)))"

text \<open>
  \<open>get_char\<close>: \<open>termios.tcgetattr\<close> raises when standard input is not a terminal
  (nothing has been changed then); otherwise the \<open>try\<close> block runs, and when it returns
  or raises the \<open>finally\<close> clause calls \<open>termios.tcsetattr\<close> with \<open>TCSADRAIN\<close> and the
  saved settings.  When that call raises, its exception is the one that leaves
  \<open>get_char\<close>, whatever the block did.  A block that never returns never reaches the
  \<open>finally\<close> clause.
\<close>

definition get_char :: "world \<Rightarrow> string option outcome \<times> world" where
  "get_char w =
     (if \<not> is_tty w then (Raised (Exception ''(25, 'Inappropriate ioctl for device')''), w)
      else
        (let old_settings = tty_attr w;
             (r, w1) = get_char_try w
         in case r of
              Blocked \<Rightarrow> (Blocked, w1)
            | Raised e \<Rightarrow>
                (case tcsetattr TCSADRAIN old_settings w1 of
                   (Raised e2, w2) \<Rightarrow> (Raised e2, w2)
                 | (_, w2) \<Rightarrow> (Raised e, w2))
            | Returned ch \<Rightarrow>
                (case tcsetattr TCSADRAIN old_settings w1 of
                   (Raised e2, w2) \<Rightarrow> (Raised e2, w2)
                 | (_, w2) \<Rightarrow> (Returned ch, w2))))"


section \<open>Setup, the dispatch loop and the process\<close>

definition gpio_base :: string where
  "gpio_base = ''/sys/class/gpio''"

text \<open>
  The two inner \<open>try\<close> blocks of \<open>setup_gpio_sysfs\<close>.  A successful write to the export
  file makes the kernel create the pin's directory.
\<close>

definition export_pin :: "string \<Rightarrow> int \<Rightarrow> world \<Rightarrow> world" where
  "export_pin action bcm_pin w =
     (case write_file (gpio_base @ ''/export'') (str_int bcm_pin) w of
        (Inr _, w1) \<Rightarrow>
          logger_info (''Exported GPIO '' @ str_int bcm_pin @ '' for '' @ py_upper action)
            (w1\<lparr>gpio_dirs := bcm_pin # gpio_dirs w1\<rparr>)
      | (Inl e, w1) \<Rightarrow>
          logger_warning (''Could not export GPIO '' @ str_int bcm_pin @ '': '' @ e) w1)"

definition configure_pin :: "string \<Rightarrow> int \<Rightarrow> int \<Rightarrow> string \<Rightarrow> world \<Rightarrow> world" where
  "configure_pin action board_pin bcm_pin gpio_path w =
     (case write_file (gpio_path @ ''/direction'') ''out'' w of
        (Inl e, w1) \<Rightarrow>
          logger_warning (''Could not configure GPIO '' @ str_int bcm_pin @ '': '' @ e) w1
      | (Inr _, w1) \<Rightarrow>
          (case write_file (gpio_path @ ''/value'') ''1'' w1 of
             (Inl e, w2) \<Rightarrow>
               logger_warning (''Could not configure GPIO '' @ str_int bcm_pin @ '': '' @ e) w2
           | (Inr _, w2) \<Rightarrow>
               logger_info
                 (''Configured GPIO '' @ str_int bcm_pin @ '' (Board '' @ str_int board_pin
                    @ '') for '' @ py_upper action) w2))"

text \<open>
  The loop of \<open>setup_gpio_sysfs\<close> over \<open>gpio_pins.items()\<close>; \<open>Inl\<close> is the \<open>KeyError\<close> of
  a board pin missing from \<open>board_to_bcm\<close>, with its text.
\<close>

fun setup_pins :: "(string \<times> int) list \<Rightarrow> world \<Rightarrow> (string + unit) \<times> world" where
  "setup_pins [] w = (Inr (), w)"
| "setup_pins ((action, board_pin) # rest) w =
     (case map_of board_to_bcm board_pin of
        None \<Rightarrow> (Inl (str_int board_pin), w)
      | Some bcm_pin \<Rightarrow>
          (let gpio_path = gpio_base @ ''/gpio'' @ str_int bcm_pin;
               w1 = (if bcm_pin \<notin> set (gpio_dirs w) then export_pin action bcm_pin w else w);
               w2 = configure_pin action board_pin bcm_pin gpio_path w1
           in setup_pins rest w2))"

definition setup_gpio_sysfs :: "world \<Rightarrow> bool \<times> world" where
  "setup_gpio_sysfs w =
     (case setup_pins gpio_pins w of
        (Inr _, w1) \<Rightarrow> (True, logger_info ''GPIO setup completed using sysfs'' w1)
      | (Inl e, w1) \<Rightarrow> (False, logger_error (''Failed to setup GPIO via sysfs: '' @ e) w1))"

text \<open>\<open>print_instructions\<close>; \<open>{s:<8}\<close> pads \<open>s\<close> with spaces on the right to 8 characters.\<close>

definition py_ljust :: "nat \<Rightarrow> string \<Rightarrow> string" where
  "py_ljust n s = s @ replicate (n - length s) (CHR '' '')"

fun print_pin_lines :: "(string \<times> int) list \<Rightarrow> world \<Rightarrow> (string + unit) \<times> world" where
  "print_pin_lines [] w = (Inr (), w)"
| "print_pin_lines ((action, pin) # rest) w =
     (case map_of board_to_bcm pin of
        None \<Rightarrow> (Inl (str_int pin), w)
      | Some bcm_pin \<Rightarrow>
          print_pin_lines rest
            (print_line (''  '' @ py_ljust 8 (py_upper action) @ '' -> Board Pin '' @ str_int pin
               @ '' (BCM '' @ str_int bcm_pin @ '')'') w))"

definition print_instructions :: "world \<Rightarrow> (string + unit) \<times> world" where
  "print_instructions w =
     (let w1 = print_line (LF # replicate 60 (CHR ''='')) w;
          w2 = print_line ''GPIO Bridge: Safe Keyboard to Hardware Button Simulation'' w1;
          w3 = print_line (replicate 60 (CHR ''='')) w2;
          w4 = print_line ''Key Mappings:'' w3;
          w5 = print_line ''  Arrow Keys    -> Directional buttons'' w4;
          w6 = print_line ''  WASD          -> Alternative directional buttons'' w5;
          w7 = print_line ''  SPACE/ENTER   -> Press/Select button'' w6;
          w8 = print_line ''  1, 2, 3       -> KEY1, KEY2, KEY3'' w7;
          w9 = print_line ''  Q             -> Quit'' w8;
          w10 = print_line (replicate 60 (CHR ''-'')) w9;
          w11 = print_line ''GPIO Pin Mapping:'' w10
      in case print_pin_lines gpio_pins w11 of
           (Inl e, w12) \<Rightarrow> (Inl e, w12)
         | (Inr _, w12) \<Rightarrow>
             (let w13 = print_line (replicate 60 (CHR ''='')) w12;
                  w14 = print_line ''This version uses sysfs and won't conflict with your main.py'' w13;
                  w15 = print_line ''Press keys to simulate button presses...'' w14;
                  w16 = print_line ''(Press 'q' to quit)'' w15
              in (Inr (), print_line [] w16)))"

text \<open>
  \<open>threading.Thread(target=self.simulate_button_press, args=(action, pin),
  daemon=True).start()\<close>: the main thread only starts the pulse and goes on; what the
  pulse does to the pin is \<open>simulate_button_press\<close>, run on its own.
\<close>

definition thread_start :: "string \<Rightarrow> int \<Rightarrow> world \<Rightarrow> world" where
  "thread_start action pin w = emit (ThreadStart action pin) w"

definition stop_bridge :: "world \<Rightarrow> world" where
  "stop_bridge w = logger_info ''GPIO Bridge stopped'' (cleanup_gpio (w\<lparr>is_running := False\<rparr>))"

text \<open>Every character \<open>get_char\<close> returns has been taken from the terminal's input.\<close>

lemma tcsetattr_length:
  "length (stdin_q (snd (tcsetattr opt attrs w))) \<le> length (stdin_q w)"
  by (simp add: tcsetattr_def discard_pending_def length_dropWhile_le
      split: option.split tc_when.split)

lemma tty_setraw_length:
  "length (stdin_q (snd (tty_setraw w))) \<le> length (stdin_q w)"
  unfolding tty_setraw_def by (rule tcsetattr_length)

lemma select_stdin_length:
  "length (stdin_q (snd (select_stdin t w))) \<le> length (stdin_q w)"
  by (simp add: select_stdin_def split: list.split tty_event.split)

lemma stdin_read1_length:
  "stdin_read1 w = (Returned c, w1) \<Longrightarrow> length (stdin_q w1) < length (stdin_q w)"
  by (auto simp: stdin_read1_def split: list.splits tty_event.splits)

lemma stdin_read1_length_le:
  "length (stdin_q (snd (stdin_read1 w))) \<le> length (stdin_q w)"
  by (simp add: stdin_read1_def split: list.split tty_event.split)

lemma select_stdin_truthy:
  "select_stdin t w = (Returned r, w1) \<Longrightarrow> py_truthy r"
  by (auto simp: select_stdin_def py_truthy_def split: list.splits tty_event.splits if_splits)

lemma and_then_Returned:
  "and_then m f = (Returned y, w2) \<Longrightarrow> \<exists>x w1. m = (Returned x, w1) \<and> f x w1 = (Returned y, w2)"
  by (cases m) (auto simp: and_then_def split: outcome.splits)

lemma get_char_try_length:
  assumes "get_char_try w = (Returned r, w1)"
  shows "length (stdin_q w1) < length (stdin_q w)"
proof -
  from assms obtain u w0 where
    s0: "tty_setraw w = (Returned u, w0)"
    and k0: "and_then (select_stdin 100 w0) (\<lambda>r1 w.
       if py_truthy r1 then
         and_then (stdin_read1 w) (\<lambda>ch w.
           if ch = [ESC] then
             and_then (select_stdin 100 w) (\<lambda>r2 w.
               if py_truthy r2 then
                 and_then (stdin_read1 w) (\<lambda>c2 w.
                   and_then (select_stdin 100 w) (\<lambda>r3 w.
                     if py_truthy r3 then
                       and_then (stdin_read1 w) (\<lambda>c3 w.
                         (Returned (Some ((ch @ c2) @ c3)), w))
                     else (Returned (Some (ch @ c2)), w)))
               else (Returned (Some ch), w))
           else (Returned (Some ch), w))
       else (Returned None, w)) = (Returned r, w1)"
    unfolding get_char_try_def by (blast dest: and_then_Returned)
  have l0: "length (stdin_q w0) \<le> length (stdin_q w)"
    using tty_setraw_length [of w] s0 by simp
  from k0 obtain r1 wa where
    s1: "select_stdin 100 w0 = (Returned r1, wa)"
    and k1: "(if py_truthy r1 then
         and_then (stdin_read1 wa) (\<lambda>ch w.
           if ch = [ESC] then
             and_then (select_stdin 100 w) (\<lambda>r2 w.
               if py_truthy r2 then
                 and_then (stdin_read1 w) (\<lambda>c2 w.
                   and_then (select_stdin 100 w) (\<lambda>r3 w.
                     if py_truthy r3 then
                       and_then (stdin_read1 w) (\<lambda>c3 w.
                         (Returned (Some ((ch @ c2) @ c3)), w))
                     else (Returned (Some (ch @ c2)), w)))
               else (Returned (Some ch), w))
           else (Returned (Some ch), w))
       else (Returned None, wa)) = (Returned r, w1)"
    by (blast dest: and_then_Returned)
  have la: "length (stdin_q wa) \<le> length (stdin_q w)"
    using select_stdin_length [of 100 w0] s1 l0 by simp
  from select_stdin_truthy [OF s1] k1 obtain ch wb where
    r1: "stdin_read1 wa = (Returned ch, wb)"
    and k2: "(if ch = [ESC] then
             and_then (select_stdin 100 wb) (\<lambda>r2 w.
               if py_truthy r2 then
                 and_then (stdin_read1 w) (\<lambda>c2 w.
                   and_then (select_stdin 100 w) (\<lambda>r3 w.
                     if py_truthy r3 then
                       and_then (stdin_read1 w) (\<lambda>c3 w.
                         (Returned (Some ((ch @ c2) @ c3)), w))
                     else (Returned (Some (ch @ c2)), w)))
               else (Returned (Some ch), w))
           else (Returned (Some ch), wb)) = (Returned r, w1)"
    by (auto dest: and_then_Returned)
  have lb: "length (stdin_q wb) < length (stdin_q w)"
    using stdin_read1_length [OF r1] la by simp
  show ?thesis
  proof (cases "ch = [ESC]")
    case False
    with k2 lb show ?thesis by simp
  next
    case True
    with k2 obtain r2 wc where
      s2: "select_stdin 100 wb = (Returned r2, wc)"
      and k3: "(if py_truthy r2 then
                 and_then (stdin_read1 wc) (\<lambda>c2 w.
                   and_then (select_stdin 100 w) (\<lambda>r3 w.
                     if py_truthy r3 then
                       and_then (stdin_read1 w) (\<lambda>c3 w.
                         (Returned (Some ((ch @ c2) @ c3)), w))
                     else (Returned (Some (ch @ c2)), w)))
               else (Returned (Some ch), wc)) = (Returned r, w1)"
      by (auto dest: and_then_Returned)
    have lc: "length (stdin_q wc) < length (stdin_q w)"
      using select_stdin_length [of 100 wb] s2 lb by simp
    from select_stdin_truthy [OF s2] k3 obtain c2 wd where
      r2: "stdin_read1 wc = (Returned c2, wd)"
      and k4: "and_then (select_stdin 100 wd) (\<lambda>r3 w.
                     if py_truthy r3 then
                       and_then (stdin_read1 w) (\<lambda>c3 w.
                         (Returned (Some ((ch @ c2) @ c3)), w))
                     else (Returned (Some (ch @ c2)), w)) = (Returned r, w1)"
      by (auto dest: and_then_Returned)
    have ld: "length (stdin_q wd) < length (stdin_q w)"
      using stdin_read1_length [OF r2] lc by simp
    from k4 obtain r3 we where
      s3: "select_stdin 100 wd = (Returned r3, we)"
      and k5: "(if py_truthy r3 then
                       and_then (stdin_read1 we) (\<lambda>c3 w.
                         (Returned (Some ((ch @ c2) @ c3)), w))
                     else (Returned (Some (ch @ c2)), we)) = (Returned r, w1)"
      by (auto dest: and_then_Returned)
    have le: "length (stdin_q we) < length (stdin_q w)"
      using select_stdin_length [of 100 wd] s3 ld by simp
    from select_stdin_truthy [OF s3] k5 obtain c3 where
      r3: "stdin_read1 we = (Returned c3, w1)"
      by (auto dest: and_then_Returned)
    from stdin_read1_length [OF r3] le show ?thesis by simp
  qed
qed

lemma get_char_length:
  assumes "get_char w = (Returned r, w1)"
  shows "length (stdin_q w1) < length (stdin_q w)"
proof -
  obtain r0 w0 where t: "get_char_try w = (r0, w0)"
    by (cases "get_char_try w")
  obtain r2 w2 where c: "tcsetattr TCSADRAIN (tty_attr w) w0 = (r2, w2)"
    by (cases "tcsetattr TCSADRAIN (tty_attr w) w0")
  from assms t c have "r0 = Returned r" and "w1 = w2"
    by (auto simp: get_char_def Let_def split: if_splits outcome.splits)
  moreover from c have "length (stdin_q w2) \<le> length (stdin_q w0)"
    using tcsetattr_length [of TCSADRAIN "tty_attr w" w0] by simp
  ultimately show ?thesis
    using get_char_try_length [of w r w0] t by simp
qed

text \<open>
  The \<open>while self.is_running\<close> loop of \<open>start_bridge\<close>.  \<open>Returned ()\<close>: the loop was
  left by \<open>break\<close> or by its condition; \<open>Raised\<close>: an exception left it; \<open>Blocked\<close>: the
  decoder never returned.  Each iteration that goes on has consumed input.
\<close>

function main_loop :: "world \<Rightarrow> unit outcome \<times> world" where
  "main_loop w =
     (if \<not> is_running w then (Returned (), w)
      else
        (case get_char w of
           (Blocked, w1) \<Rightarrow> (Blocked, w1)
         | (Raised e, w1) \<Rightarrow> (Raised e, w1)
         | (Returned None, w1) \<Rightarrow> main_loop w1
         | (Returned (Some char), w1) \<Rightarrow>
             if py_lower char = ''q'' then (Returned (), logger_info ''Quit command received'' w1)
             else
               (case map_of key_mapping char of
                  None \<Rightarrow> main_loop w1
                | Some action \<Rightarrow>
                    if action = ''quit'' then (Returned (), w1)
                    else
                      (case map_of gpio_pins action of
                         None \<Rightarrow> main_loop w1
                       | Some pin \<Rightarrow> main_loop (thread_start action pin w1)))))"
  by pat_completeness auto
termination
proof (relation "measure (\<lambda>w. length (stdin_q w))")
  show "wf (measure (\<lambda>w. length (stdin_q w)))"
    by simp
next
  fix w x y x1
  assume "(x, y) = get_char w" and "x = Returned x1"
  then show "(y, w) \<in> measure (\<lambda>w. length (stdin_q w))"
    using get_char_length [of w x1 y] by simp
next
  fix w x y x1
  assume "(x, y) = get_char w" and "x = Returned x1"
  then show "(y, w) \<in> measure (\<lambda>w. length (stdin_q w))"
    using get_char_length [of w x1 y] by simp
next
  fix w x y x1
  assume "(x, y) = get_char w" and "x = Returned x1"
  then show "(y, w) \<in> measure (\<lambda>w. length (stdin_q w))"
    using get_char_length [of w x1 y] by simp
next
  fix w x y x1 action pin
  assume "(x, y) = get_char w" and "x = Returned x1"
  then show "(thread_start action pin y, w) \<in> measure (\<lambda>w. length (stdin_q w))"
    using get_char_length [of w x1 y] by (simp add: thread_start_def emit_def)
qed

declare main_loop.simps [simp del]

text \<open>
  \<open>start_bridge\<close> after the loop: the handler of \<open>KeyboardInterrupt\<close>, the \<open>finally\<close>
  clause (\<open>stop_bridge\<close>) and \<open>return True\<close>.  Another exception passes through the
  \<open>finally\<close> clause and goes on to the caller.
\<close>

definition finish_bridge :: "unit outcome \<times> world \<Rightarrow> bool outcome \<times> world" where
  "finish_bridge r =
     (case r of
        (Blocked, w) \<Rightarrow> (Blocked, w)
      | (Raised KeyboardInterrupt, w) \<Rightarrow>
          (Returned True, stop_bridge (logger_info ''Interrupted by user (Ctrl+C)'' w))
      | (Raised (Exception msg), w) \<Rightarrow> (Raised (Exception msg), stop_bridge w)
      | (Returned _, w) \<Rightarrow> (Returned True, stop_bridge w))"

definition start_bridge :: "world \<Rightarrow> bool outcome \<times> world" where
  "start_bridge w =
     (case setup_gpio_sysfs w of
        (False, w1) \<Rightarrow>
          (Returned False, logger_error ''Failed to setup GPIO. Trying alternative method...'' w1)
      | (True, w1) \<Rightarrow>
          (case print_instructions (w1\<lparr>is_running := True\<rparr>) of
             (Inl msg, w2) \<Rightarrow> (Raised (Exception msg), w2)
           | (Inr _, w2) \<Rightarrow> finish_bridge (main_loop w2)))"

text \<open>
  How the process ends: with an exit status, with an exception nobody caught, or
  never.  \<open>main_exit\<close> is \<open>main\<close> after the call of \<open>start_bridge\<close>: leaving \<open>main\<close>
  normally ends the process with status 0, \<open>sys.exit(1)\<close> with status 1.
\<close>

datatype process_end = Exit nat | Uncaught exn | Hangs

definition main_exit :: "bool outcome \<times> world \<Rightarrow> process_end \<times> world" where
  "main_exit r =
     (case r of
        (Returned ok, w) \<Rightarrow>
          if ok then (Exit 0, logger_info ''Bridge completed successfully'' w)
          else (Exit 1, logger_error ''Failed to start bridge'' w)
      | (Raised (Exception msg), w) \<Rightarrow> (Exit 1, logger_error (''Unexpected error: '' @ msg) w)
      | (Raised KeyboardInterrupt, w) \<Rightarrow> (Uncaught KeyboardInterrupt, w)
      | (Blocked, w) \<Rightarrow> (Hangs, w))"

definition main :: "world \<Rightarrow> process_end \<times> world" where
  "main w = main_exit (start_bridge (print_line ''Starting Safe GPIO Bridge...'' w))"


section \<open>Observations on traces\<close>

text \<open>
  The file writes attempted in a trace, in order: path, data, and whether the write
  succeeded.  The levels that reached one file are the data of its successful writes.
\<close>

fun file_ops :: "event list \<Rightarrow> (string \<times> string \<times> bool) list" where
  "file_ops [] = []"
| "file_ops (FileWrite p d # es) = (p, d, True) # file_ops es"
| "file_ops (FileWriteFailed p d # es) = (p, d, False) # file_ops es"
| "file_ops (_ # es) = file_ops es"

definition levels_written :: "string \<Rightarrow> event list \<Rightarrow> string list" where
  "levels_written path es = map (fst \<circ> snd) (filter (\<lambda>(p, d, ok). p = path \<and> ok) (file_ops es))"

text \<open>The events a run added: those of the final trace beyond the initial one.\<close>

definition new_events :: "world \<Rightarrow> world \<Rightarrow> event list" where
  "new_events w w' = drop (length (trace w)) (trace w')"

text \<open>Whether the \<open>k\<close>-th file write to come raises.\<close>

definition fault_at :: "nat \<Rightarrow> world \<Rightarrow> string option" where
  "fault_at k w = (if k < length (io_faults w) then io_faults w ! k else None)"

text \<open>
  The events of one call of \<open>gpio_write\<close> on a pin that \<open>board_to_bcm\<close> knows: the
  write when it succeeds; the refused write and the error record when it raises.
\<close>

definition write_events :: "int \<Rightarrow> int \<Rightarrow> string \<Rightarrow> string option \<Rightarrow> event list" where
  "write_events board_pin bcm_pin data fault =
     (case fault of
        None \<Rightarrow> [FileWrite (value_path bcm_pin) data]
      | Some e \<Rightarrow>
          [FileWriteFailed (value_path bcm_pin) data,
           Log ERROR (''Failed to write to GPIO '' @ str_int board_pin @ '': '' @ e)])"

text \<open>
  What the decoder leaves alone: the trace, the fault schedule and \<open>is_running\<close>.
\<close>

definition same_outside :: "world \<Rightarrow> world \<Rightarrow> bool" where
  "same_outside w w' \<longleftrightarrow>
     trace w' = trace w \<and> io_faults w' = io_faults w \<and> is_running w' = is_running w"

text \<open>
  What setup and printing leave alone: the terminal, the clock and \<open>is_running\<close>.
\<close>

definition same_terminal :: "world \<Rightarrow> world \<Rightarrow> bool" where
  "same_terminal w w' \<longleftrightarrow>
     stdin_q w' = stdin_q w \<and> is_tty w' = is_tty w \<and> clock w' = clock w
     \<and> tty_faults w' = tty_faults w \<and> is_running w' = is_running w"

text \<open>A terminal in its usual line mode, and a world that has done nothing yet.\<close>

definition cooked :: termios where
  "cooked = \<lparr>echo = True, icanon = True, isig = True, opost = True, vmin = 1, vtime = 0\<rparr>"

definition fresh_world :: "(nat \<times> tty_event) list \<Rightarrow> string option list \<Rightarrow> world" where
  "fresh_world keys faults =
     \<lparr>stdin_q = keys, clock = 0, tty_attr = cooked, gpio_dirs = [], io_faults = faults,
      trace = [], is_running = False, is_tty = True, tty_faults = []\<rparr>"


section \<open>Properties of the tables\<close>

lemma gpio_pins_dom:
  "dom (map_of gpio_pins) =
     {''up'', ''down'', ''left'', ''right'', ''press'', ''key1'', ''key2'', ''key3''}"
  by (simp add: gpio_pins_def dom_map_of_conv_image_fst)

lemma gpio_pins_ran:
  "ran (map_of gpio_pins) = {31, 35, 29, 37, 33, 40, 38, 36}"
proof -
  have "distinct (map fst gpio_pins)"
    by (simp add: gpio_pins_def)
  then have "ran (map_of gpio_pins) = snd ` set gpio_pins"
    by (rule ran_map_of_zip [where xs = "map fst gpio_pins" and ys = "map snd gpio_pins",
          simplified zip_map_fst_snd, simplified])
  then show ?thesis
    by (simp add: gpio_pins_def)
qed

lemma board_to_bcm_dom:
  "dom (map_of board_to_bcm) = {31, 35, 29, 37, 33, 40, 38, 36}"
  by (simp add: board_to_bcm_def dom_map_of_conv_image_fst)

lemma inj_on_map_of_distinct:
  assumes "distinct (map snd xs)"
  shows "inj_on (map_of xs) (dom (map_of xs))"
proof (rule inj_onI)
  fix a b
  assume a: "a \<in> dom (map_of xs)" and b: "b \<in> dom (map_of xs)"
    and eq: "map_of xs a = map_of xs b"
  from a obtain v where va: "map_of xs a = Some v" by auto
  with eq have vb: "map_of xs b = Some v" by simp
  from va have ia: "(a, v) \<in> set xs" by (rule map_of_SomeD)
  from vb have ib: "(b, v) \<in> set xs" by (rule map_of_SomeD)
  from ia obtain i where i: "i < length xs" "xs ! i = (a, v)"
    by (auto simp: in_set_conv_nth)
  from ib obtain j where j: "j < length xs" "xs ! j = (b, v)"
    by (auto simp: in_set_conv_nth)
  from i j have e: "map snd xs ! i = map snd xs ! j" by simp
  from i j have "i < length (map snd xs)" and "j < length (map snd xs)" by simp_all
  with assms e have "i = j"
    using nth_eq_iff_index_eq by blast
  with i j show "a = b" by simp
qed

text \<open>
  C3.  Both tables are total on their domains and injective: the keys of \<open>gpio_pins\<close>
  are exactly the eight logical buttons, every physical pin that \<open>gpio_pins\<close> yields has an
  entry in \<open>board_to_bcm\<close>, distinct buttons have distinct physical pins, and distinct
  physical pins have distinct chip pins.
\<close>

theorem registry_total_injective:
  "dom (map_of gpio_pins) =
     {''up'', ''down'', ''left'', ''right'', ''press'', ''key1'', ''key2'', ''key3''}
   \<and> card (dom (map_of gpio_pins)) = 8
   \<and> ran (map_of gpio_pins) \<subseteq> dom (map_of board_to_bcm)
   \<and> inj_on (map_of gpio_pins) (dom (map_of gpio_pins))
   \<and> inj_on (map_of board_to_bcm) (dom (map_of board_to_bcm))"
proof -
  have c: "card (dom (map_of gpio_pins)) = 8"
    by (simp add: gpio_pins_dom)
  have s: "ran (map_of gpio_pins) \<subseteq> dom (map_of board_to_bcm)"
    by (simp add: gpio_pins_ran board_to_bcm_dom)
  have i1: "inj_on (map_of gpio_pins) (dom (map_of gpio_pins))"
    by (rule inj_on_map_of_distinct) (simp add: gpio_pins_def)
  have i2: "inj_on (map_of board_to_bcm) (dom (map_of board_to_bcm))"
    by (rule inj_on_map_of_distinct) (simp add: board_to_bcm_def)
  from gpio_pins_dom c s i1 i2 show ?thesis by blast
qed

text \<open>
  C10.  The key mapping has exactly fourteen keys: the four arrow escape sequences,
  space and carriage return (both \<open>press\<close>), the digits 1 to 3, the letters w, s, a, d,
  and q (\<open>quit\<close>).  Every other token is unmapped.
\<close>

theorem key_mapping_exact:
  "map_of key_mapping tok =
     (if tok = [ESC, CHR ''['', CHR ''A''] then Some ''up''
      else if tok = [ESC, CHR ''['', CHR ''B''] then Some ''down''
      else if tok = [ESC, CHR ''['', CHR ''D''] then Some ''left''
      else if tok = [ESC, CHR ''['', CHR ''C''] then Some ''right''
      else if tok = '' '' then Some ''press''
      else if tok = [CR] then Some ''press''
      else if tok = ''1'' then Some ''key1''
      else if tok = ''2'' then Some ''key2''
      else if tok = ''3'' then Some ''key3''
      else if tok = ''w'' then Some ''up''
      else if tok = ''s'' then Some ''down''
      else if tok = ''a'' then Some ''left''
      else if tok = ''d'' then Some ''right''
      else if tok = ''q'' then Some ''quit''
      else None)
   \<and> card (dom (map_of key_mapping)) = 14"
proof -
  have d: "dom (map_of key_mapping) =
     {[ESC, CHR ''['', CHR ''A''], [ESC, CHR ''['', CHR ''B''], [ESC, CHR ''['', CHR ''D''],
      [ESC, CHR ''['', CHR ''C''], '' '', [CR], ''1'', ''2'', ''3'', ''w'', ''s'', ''a'', ''d'',
      ''q''}"
    by (simp add: key_mapping_def dom_map_of_conv_image_fst)
  have c: "card (dom (map_of key_mapping)) = 14"
    unfolding d by (simp add: ESC_def CR_def)
  have l: "map_of key_mapping tok =
     (if tok = [ESC, CHR ''['', CHR ''A''] then Some ''up''
      else if tok = [ESC, CHR ''['', CHR ''B''] then Some ''down''
      else if tok = [ESC, CHR ''['', CHR ''D''] then Some ''left''
      else if tok = [ESC, CHR ''['', CHR ''C''] then Some ''right''
      else if tok = '' '' then Some ''press''
      else if tok = [CR] then Some ''press''
      else if tok = ''1'' then Some ''key1''
      else if tok = ''2'' then Some ''key2''
      else if tok = ''3'' then Some ''key3''
      else if tok = ''w'' then Some ''up''
      else if tok = ''s'' then Some ''down''
      else if tok = ''a'' then Some ''left''
      else if tok = ''d'' then Some ''right''
      else if tok = ''q'' then Some ''quit''
      else None)"
    by (simp add: key_mapping_def)
  from l c show ?thesis by (rule conjI)
qed


section \<open>The pulse and the shutdown: what reaches the pins\<close>

lemma file_ops_append: "file_ops (xs @ ys) = file_ops xs @ file_ops ys"
  by (induction xs rule: file_ops.induct) simp_all

lemma next_fault_eq: "next_fault w = fault_at 0 w"
  by (cases "io_faults w") (simp_all add: next_fault_def fault_at_def)

lemma fault_at_tl: "fault_at k (w\<lparr>io_faults := tl (io_faults w)\<rparr>) = fault_at (Suc k) w"
  by (cases "io_faults w") (simp_all add: fault_at_def)

lemma fault_at_emit: "fault_at k (emit e w) = fault_at k w"
  by (simp add: fault_at_def emit_def)

lemma fault_at_clock: "fault_at k (w\<lparr>clock := c\<rparr>) = fault_at k w"
  by (simp add: fault_at_def)

lemma trace_emit: "trace (emit e w) = trace w @ [e]"
  by (simp add: emit_def)

lemma gpio_write_ok:
  assumes "map_of board_to_bcm pin = Some bcm" and "fault_at 0 w = None"
  shows "gpio_write pin v w =
    (True, emit (FileWrite (value_path bcm) (str_int v)) (w\<lparr>io_faults := tl (io_faults w)\<rparr>))"
  using assms by (simp add: gpio_write_def write_file_def next_fault_eq)

lemma gpio_write_fault:
  assumes "map_of board_to_bcm pin = Some bcm" and "fault_at 0 w = Some e"
  shows "gpio_write pin v w =
    (False, logger_error (''Failed to write to GPIO '' @ str_int pin @ '': '' @ e)
       (emit (FileWriteFailed (value_path bcm) (str_int v)) (w\<lparr>io_faults := tl (io_faults w)\<rparr>)))"
  using assms by (simp add: gpio_write_def write_file_def next_fault_eq)

lemma gpio_write_unmapped:
  assumes "map_of board_to_bcm pin = None"
  shows "gpio_write pin v w =
    (False, logger_error (''Failed to write to GPIO '' @ str_int pin @ '': '' @ str_int pin) w)"
  using assms by (simp add: gpio_write_def)

lemmas pulse_simps = logger_info_def logger_error_def time_sleep_def fault_at_emit fault_at_tl
  fault_at_clock trace_emit

lemma str_int_0: "str_int 0 = ''0''"
  by (simp add: str_int_def str_nat.simps digit_char_def)

lemma str_int_1: "str_int 1 = ''1''"
  by (simp add: str_int_def str_nat.simps digit_char_def)

text \<open>
  C2.  A pulse on a pin that \<open>board_to_bcm\<close> knows, none of whose three writes raises,
  writes to that pin's value file exactly the levels 1 (HIGH), 0 (LOW), 1 (HIGH), in this
  order, and touches no other file; the last level written is HIGH.
\<close>

theorem pulse_levels_high_low_high:
  assumes m: "map_of board_to_bcm pin = Some bcm"
    and f: "fault_at 0 w = None" "fault_at 1 w = None" "fault_at 2 w = None"
  shows "file_ops (new_events w (simulate_button_press action pin w)) =
           [(value_path bcm, ''1'', True), (value_path bcm, ''0'', True),
            (value_path bcm, ''1'', True)]
       \<and> levels_written (value_path bcm) (new_events w (simulate_button_press action pin w)) =
           [''1'', ''0'', ''1'']
       \<and> last (levels_written (value_path bcm)
                 (new_events w (simulate_button_press action pin w))) = ''1''"
proof -
  let ?w1 = "logger_info (''Simulating '' @ py_upper action @ '' button press on Board pin '' @ str_int pin) w"
  have g1: "gpio_write pin 1 ?w1 = (True, emit (FileWrite (value_path bcm) ''1'') (?w1\<lparr>io_faults := tl (io_faults ?w1)\<rparr>))"
    using gpio_write_ok [OF m, of ?w1 1] f by (simp add: pulse_simps str_int_1)
  let ?w3 = "pulse_settle action pin w"
  have w3: "?w3 = time_sleep 10 (emit (FileWrite (value_path bcm) ''1'') (?w1\<lparr>io_faults := tl (io_faults ?w1)\<rparr>))"
    unfolding pulse_settle_def Let_def g1 by simp
  have f3: "fault_at 0 ?w3 = None" "fault_at 1 ?w3 = None"
    unfolding w3 using f by (simp_all add: pulse_simps eval_nat_numeral)
  have t3: "trace ?w3 = trace w @ [Log INFO (''Simulating '' @ py_upper action @ '' button press on Board pin '' @ str_int pin), FileWrite (value_path bcm) ''1'', Sleep 10]"
    unfolding w3 by (simp add: pulse_simps)
  let ?w4 = "emit (FileWrite (value_path bcm) ''0'') (?w3\<lparr>io_faults := tl (io_faults ?w3)\<rparr>)"
  have g2: "gpio_write pin 0 ?w3 = (True, ?w4)"
    using gpio_write_ok [OF m f3(1), of 0] by (simp add: str_int_0)
  let ?w6 = "time_sleep button_press_duration (logger_info (''  Button '' @ py_upper action @ '' pressed (Board '' @ str_int pin @ '' -> LOW)'') ?w4)"
  have f6: "fault_at 0 ?w6 = None"
    using f3 by (simp add: pulse_simps)
  let ?w7 = "emit (FileWrite (value_path bcm) ''1'') (?w6\<lparr>io_faults := tl (io_faults ?w6)\<rparr>)"
  have g3: "gpio_write pin 1 ?w6 = (True, ?w7)"
    using gpio_write_ok [OF m f6, of 1] by (simp add: str_int_1)
  have r: "simulate_button_press action pin w =
      logger_info (''  Button '' @ py_upper action @ '' released (Board '' @ str_int pin @ '' -> HIGH)'') ?w7"
    unfolding simulate_button_press_def Let_def g2 prod.case if_True g3 by simp
  have n: "new_events w (simulate_button_press action pin w) =
     [Log INFO (''Simulating '' @ py_upper action @ '' button press on Board pin '' @ str_int pin),
      FileWrite (value_path bcm) ''1'', Sleep 10,
      FileWrite (value_path bcm) ''0'',
      Log INFO (''  Button '' @ py_upper action @ '' pressed (Board '' @ str_int pin @ '' -> LOW)''),
      Sleep button_press_duration,
      FileWrite (value_path bcm) ''1'',
      Log INFO (''  Button '' @ py_upper action @ '' released (Board '' @ str_int pin @ '' -> HIGH)'')]"
    unfolding r new_events_def by (simp add: pulse_simps t3)
  show ?thesis
    unfolding n by (simp add: levels_written_def)
qed


text \<open>A pulse on \<open>key1\<close> (board pin 40, chip pin 21) with no failing write.\<close>

theorem pulse_levels_high_low_high_witness:
  "map_of board_to_bcm 40 = Some 21
   \<and> fault_at 0 (fresh_world [] []) = None \<and> fault_at 1 (fresh_world [] []) = None
   \<and> fault_at 2 (fresh_world [] []) = None
   \<and> levels_written (value_path 21)
        (new_events (fresh_world [] []) (simulate_button_press ''key1'' 40 (fresh_world [] []))) =
      [''1'', ''0'', ''1'']"
proof -
  have m: "map_of board_to_bcm 40 = Some 21"
    by (simp add: board_to_bcm_def)
  have f: "fault_at 0 (fresh_world [] []) = None" "fault_at 1 (fresh_world [] []) = None"
    "fault_at 2 (fresh_world [] []) = None"
    by (simp_all add: fault_at_def fresh_world_def)
  from pulse_levels_high_low_high [OF m f, of "''key1''"] m f show ?thesis
    by blast
qed


text \<open>
  C6.  When the LOW write of a pulse fails (\<open>gpio_write\<close> returns \<open>False\<close> in the world
  \<open>w4\<close>), the pulse ends by logging \<open>Failed to press button\<close> and does nothing else: after
  \<open>w4\<close> the only event is that log record, no file write is attempted, and no entry of
  the fault schedule is consumed.
\<close>

theorem pulse_aborts_when_press_fails:
  assumes "gpio_write pin 0 (pulse_settle action pin w) = (False, w4)"
  shows "simulate_button_press action pin w =
           logger_error (''  Failed to press button '' @ py_upper action) w4
       \<and> new_events w4 (simulate_button_press action pin w) =
           [Log ERROR (''  Failed to press button '' @ py_upper action)]
       \<and> file_ops (new_events w4 (simulate_button_press action pin w)) = []
       \<and> io_faults (simulate_button_press action pin w) = io_faults w4"
proof -
  have r: "simulate_button_press action pin w =
           logger_error (''  Failed to press button '' @ py_upper action) w4"
    unfolding simulate_button_press_def Let_def assms by simp
  show ?thesis
    unfolding r by (simp add: new_events_def logger_error_def emit_def)
qed

lemmas eval_simps = fresh_world_def cooked_def simulate_button_press_def pulse_settle_def
  gpio_write_def write_file_def next_fault_def logger_info_def logger_error_def
  logger_warning_def emit_def time_sleep_def board_to_bcm_def gpio_pins_def value_path_def
  str_int_def str_nat.simps digit_char_def py_upper_def py_upper_char_def new_events_def
  button_press_duration_def Let_def

text \<open>
  The press fails on the \<open>up\<close> button when the second write is refused: the file
  operations of the pulse are the HIGH write and the failed LOW write, and the last
  event is the error record.
\<close>

theorem pulse_aborts_when_press_fails_witness:
  "fst (gpio_write 31 0 (pulse_settle ''up'' 31 (fresh_world [] [None, Some ''Permission denied'']))) = False
   \<and> file_ops (new_events (fresh_world [] [None, Some ''Permission denied''])
        (simulate_button_press ''up'' 31 (fresh_world [] [None, Some ''Permission denied'']))) =
      [(''/sys/class/gpio/gpio6/value'', ''1'', True), (''/sys/class/gpio/gpio6/value'', ''0'', False)]
   \<and> last (trace (simulate_button_press ''up'' 31 (fresh_world [] [None, Some ''Permission denied'']))) =
      Log ERROR ''  Failed to press button UP''"
proof -
  let ?W = "fresh_world [] [None, Some ''Permission denied'']"
  let ?w4 = "snd (gpio_write 31 0 (pulse_settle ''up'' 31 ?W))"
  have h: "gpio_write 31 0 (pulse_settle ''up'' 31 ?W) = (False, ?w4)"
    by (simp add: eval_simps)
  have t4: "trace ?w4 = [Log INFO ''Simulating UP button press on Board pin 31'',
      FileWrite ''/sys/class/gpio/gpio6/value'' ''1'', Sleep 10,
      FileWriteFailed ''/sys/class/gpio/gpio6/value'' ''0'',
      Log ERROR ''Failed to write to GPIO 31: Permission denied'']"
    by (simp add: eval_simps)
  from pulse_aborts_when_press_fails [OF h]
  have r: "simulate_button_press ''up'' 31 ?W = logger_error (''  Failed to press button '' @ py_upper ''up'') ?w4"
    by simp
  have t: "trace (simulate_button_press ''up'' 31 ?W) = trace ?w4 @ [Log ERROR ''  Failed to press button UP'']"
    unfolding r by (simp add: logger_error_def emit_def py_upper_def py_upper_char_def)
  have e: "trace ?W = []" by (simp add: fresh_world_def)
  from h have hf: "fst (gpio_write 31 0 (pulse_settle ''up'' 31 ?W)) = False"
    by (metis fst_conv)
  have ops: "file_ops (new_events ?W (simulate_button_press ''up'' 31 ?W)) =
      [(''/sys/class/gpio/gpio6/value'', ''1'', True), (''/sys/class/gpio/gpio6/value'', ''0'', False)]"
    unfolding new_events_def t e t4 by simp
  have la: "last (trace (simulate_button_press ''up'' 31 ?W)) = Log ERROR ''  Failed to press button UP''"
    unfolding t by simp
  from hf ops la show ?thesis by blast
qed

lemma gpio_write_trace:
  assumes "map_of board_to_bcm pin = Some bcm"
  shows "\<exists>evs. trace (snd (gpio_write pin v w)) = trace w @ evs
           \<and> file_ops evs = [(value_path bcm, str_int v, fault_at 0 w = None)]
           \<and> io_faults (snd (gpio_write pin v w)) = tl (io_faults w)"
proof (cases "fault_at 0 w")
  case None
  show ?thesis
    unfolding gpio_write_ok [OF assms None] by (simp add: None emit_def)
next
  case (Some e)
  show ?thesis
    unfolding gpio_write_fault [OF assms Some] by (simp add: Some emit_def logger_error_def)
qed

lemma fault_at_tl_eq:
  assumes "io_faults w' = tl (io_faults w)"
  shows "fault_at k w' = fault_at (Suc k) w"
  using assms by (cases "io_faults w") (simp_all add: fault_at_def)

lemma cleanup_pins_trace:
  assumes "list_all (\<lambda>(a, p). map_of board_to_bcm p \<noteq> None) pins"
  shows "\<exists>evs. trace (cleanup_pins pins w) = trace w @ evs
           \<and> file_ops evs =
               map (\<lambda>(k, a, p). (value_path (the (map_of board_to_bcm p)), ''1'', fault_at k w = None))
                 (enumerate 0 pins)
           \<and> io_faults (cleanup_pins pins w) = drop (length pins) (io_faults w)"
  using assms
proof (induction pins arbitrary: w)
  case Nil
  show ?case by simp
next
  case (Cons x rest)
  obtain a p where x: "x = (a, p)" by (cases x)
  from Cons.prems x obtain bcm where m: "map_of board_to_bcm p = Some bcm" by auto
  from Cons.prems have rest: "list_all (\<lambda>(a, p). map_of board_to_bcm p \<noteq> None) rest" by simp
  define w1 where "w1 = snd (gpio_write p 1 w)"
  define msg where "msg = ''  Set '' @ py_upper a @ '' (Board '' @ str_int p @ '') to HIGH''"
  define w2 where "w2 = logger_info msg w1"
  from gpio_write_trace [OF m, of 1 w] obtain e1 where
    e1: "trace w1 = trace w @ e1" "file_ops e1 = [(value_path bcm, str_int 1, fault_at 0 w = None)]"
      "io_faults w1 = tl (io_faults w)" unfolding w1_def by blast
  have step: "cleanup_pins (x # rest) w = cleanup_pins rest w2"
    unfolding x w2_def w1_def msg_def by (simp add: case_prod_unfold)
  have io2: "io_faults w2 = tl (io_faults w)"
    using e1(3) by (simp add: w2_def logger_info_def emit_def)
  have t2: "trace w2 = trace w @ e1 @ [Log INFO msg]"
    using e1(1) by (simp add: w2_def logger_info_def emit_def)
  from Cons.IH [OF rest, of w2] obtain e2 where
    e2: "trace (cleanup_pins rest w2) = trace w2 @ e2"
      "file_ops e2 = map (\<lambda>(k, a, p). (value_path (the (map_of board_to_bcm p)), ''1'', fault_at k w2 = None))
                 (enumerate 0 rest)"
      "io_faults (cleanup_pins rest w2) = drop (length rest) (io_faults w2)" by blast
  have sh: "\<And>k. fault_at k w2 = fault_at (Suc k) w"
    by (rule fault_at_tl_eq [OF io2])
  have en: "enumerate (Suc 0) rest = map (\<lambda>(k, y). (Suc k, y)) (enumerate 0 rest)"
    by (simp add: enumerate_eq_zip map_Suc_upt [symmetric] zip_map1 del: upt_Suc)
  let ?evs = "e1 @ [Log INFO msg] @ e2"
  have A: "trace (cleanup_pins (x # rest) w) = trace w @ ?evs"
    unfolding step e2(1) t2 by simp
  have B: "file_ops ?evs =
      map (\<lambda>(k, a, p). (value_path (the (map_of board_to_bcm p)), ''1'', fault_at k w = None))
        (enumerate 0 (x # rest))"
    unfolding x by (simp add: file_ops_append e1(2) e2(2) sh en m str_int_1 case_prod_unfold comp_def)
  have C: "io_faults (cleanup_pins (x # rest) w) = drop (length (x # rest)) (io_faults w)"
    unfolding step e2(3) io2 by (simp add: drop_Suc)
  from A B C show ?case by blast
qed

lemma gpio_write_events:
  assumes "map_of board_to_bcm pin = Some bcm"
  shows "trace (snd (gpio_write pin v w)) = trace w @ write_events pin bcm (str_int v) (fault_at 0 w)
       \<and> io_faults (snd (gpio_write pin v w)) = tl (io_faults w)"
proof (cases "fault_at 0 w")
  case None
  show ?thesis
    unfolding gpio_write_ok [OF assms None] by (simp add: None emit_def write_events_def)
next
  case (Some e)
  show ?thesis
    unfolding gpio_write_fault [OF assms Some]
    by (simp add: Some emit_def logger_error_def write_events_def)
qed

lemma cleanup_pins_events:
  assumes "list_all (\<lambda>(a, p). map_of board_to_bcm p \<noteq> None) pins"
  shows "trace (cleanup_pins pins w) =
           trace w @ concat (map (\<lambda>(k, a, p).
             write_events p (the (map_of board_to_bcm p)) ''1'' (fault_at k w)
               @ [Log INFO (''  Set '' @ py_upper a @ '' (Board '' @ str_int p @ '') to HIGH'')])
             (enumerate 0 pins))
       \<and> io_faults (cleanup_pins pins w) = drop (length pins) (io_faults w)"
  using assms
proof (induction pins arbitrary: w)
  case Nil
  show ?case by simp
next
  case (Cons x rest)
  obtain a p where x: "x = (a, p)" by (cases x)
  from Cons.prems x obtain bcm where m: "map_of board_to_bcm p = Some bcm" by auto
  from Cons.prems have rest: "list_all (\<lambda>(a, p). map_of board_to_bcm p \<noteq> None) rest" by simp
  define w1 where "w1 = snd (gpio_write p 1 w)"
  define msg where "msg = ''  Set '' @ py_upper a @ '' (Board '' @ str_int p @ '') to HIGH''"
  define w2 where "w2 = logger_info msg w1"
  define line where "line = (\<lambda>v. \<lambda>(k, a, p).
      write_events p (the (map_of board_to_bcm p)) ''1'' (fault_at k v)
        @ [Log INFO (''  Set '' @ py_upper a @ '' (Board '' @ str_int p @ '') to HIGH'')])"
  from gpio_write_events [OF m, of 1 w]
  have e1: "trace w1 = trace w @ write_events p bcm ''1'' (fault_at 0 w)"
      "io_faults w1 = tl (io_faults w)"
    unfolding w1_def by (simp_all add: str_int_1)
  have step: "cleanup_pins (x # rest) w = cleanup_pins rest w2"
    unfolding x w2_def w1_def msg_def by (simp add: case_prod_unfold)
  have io2: "io_faults w2 = tl (io_faults w)"
    using e1(2) by (simp add: w2_def logger_info_def emit_def)
  have t2: "trace w2 = trace w @ line w (0, a, p)"
    using e1(1) by (simp add: w2_def logger_info_def emit_def line_def msg_def m)
  from Cons.IH [OF rest, of w2]
  have e2: "trace (cleanup_pins rest w2) = trace w2 @ concat (map (line w2) (enumerate 0 rest))"
      "io_faults (cleanup_pins rest w2) = drop (length rest) (io_faults w2)"
    unfolding line_def by simp_all
  have sh: "\<And>k. fault_at k w2 = fault_at (Suc k) w"
    by (rule fault_at_tl_eq [OF io2])
  have en: "enumerate (Suc 0) rest = map (\<lambda>(k, y). (Suc k, y)) (enumerate 0 rest)"
    by (simp add: enumerate_eq_zip map_Suc_upt [symmetric] zip_map1 del: upt_Suc)
  have l2: "map (line w2) (enumerate 0 rest) = map (line w) (enumerate (Suc 0) rest)"
    unfolding en by (simp add: line_def sh case_prod_unfold)
  have A: "trace (cleanup_pins (x # rest) w) = trace w @ concat (map (line w) (enumerate 0 (x # rest)))"
    unfolding step e2(1) t2 l2 by (simp add: x)
  have C: "io_faults (cleanup_pins (x # rest) w) = drop (length (x # rest)) (io_faults w)"
    unfolding step e2(2) io2 by (simp add: drop_Suc)
  from A C show ?case
    unfolding line_def by simp
qed

lemma cleanup_gpio_events:
  "new_events w (cleanup_gpio w) =
     [Log INFO ''Starting safe GPIO cleanup...'']
     @ write_events 31 6 ''1'' (fault_at 0 w) @ [Log INFO ''  Set UP (Board 31) to HIGH'']
     @ write_events 35 19 ''1'' (fault_at 1 w) @ [Log INFO ''  Set DOWN (Board 35) to HIGH'']
     @ write_events 29 5 ''1'' (fault_at 2 w) @ [Log INFO ''  Set LEFT (Board 29) to HIGH'']
     @ write_events 37 26 ''1'' (fault_at 3 w) @ [Log INFO ''  Set RIGHT (Board 37) to HIGH'']
     @ write_events 33 13 ''1'' (fault_at 4 w) @ [Log INFO ''  Set PRESS (Board 33) to HIGH'']
     @ write_events 40 21 ''1'' (fault_at 5 w) @ [Log INFO ''  Set KEY1 (Board 40) to HIGH'']
     @ write_events 38 20 ''1'' (fault_at 6 w) @ [Log INFO ''  Set KEY2 (Board 38) to HIGH'']
     @ write_events 36 16 ''1'' (fault_at 7 w) @ [Log INFO ''  Set KEY3 (Board 36) to HIGH'']
     @ [Sleep 100, Log INFO ''GPIO cleanup completed (pins left in HIGH state)'']"
proof -
  define w1 where "w1 = logger_info ''Starting safe GPIO cleanup...'' w"
  define evs where "evs = concat (map (\<lambda>(k, a, p).
             write_events p (the (map_of board_to_bcm p)) ''1'' (fault_at k w1)
               @ [Log INFO (''  Set '' @ py_upper a @ '' (Board '' @ str_int p @ '') to HIGH'')])
             (enumerate 0 gpio_pins))"
  have ok: "list_all (\<lambda>(a, p). map_of board_to_bcm p \<noteq> None) gpio_pins"
    by (simp add: gpio_pins_def board_to_bcm_def)
  from cleanup_pins_events [OF ok, of w1]
  have e: "trace (cleanup_pins gpio_pins w1) = trace w1 @ evs"
    unfolding evs_def by simp
  have f: "\<And>k. fault_at k w1 = fault_at k w"
    by (simp add: w1_def logger_info_def fault_at_emit)
  have t1: "trace w1 = trace w @ [Log INFO ''Starting safe GPIO cleanup...'']"
    by (simp add: w1_def logger_info_def trace_emit)
  have c: "cleanup_gpio w = logger_info ''GPIO cleanup completed (pins left in HIGH state)''
      (time_sleep 100 (cleanup_pins gpio_pins w1))"
    unfolding cleanup_gpio_def Let_def w1_def ..
  have t: "trace (cleanup_gpio w) = trace w @ [Log INFO ''Starting safe GPIO cleanup...''] @ evs
      @ [Sleep 100, Log INFO ''GPIO cleanup completed (pins left in HIGH state)'']"
    unfolding c by (simp add: logger_info_def time_sleep_def trace_emit e t1)
  have n: "new_events w (cleanup_gpio w) = [Log INFO ''Starting safe GPIO cleanup...''] @ evs
      @ [Sleep 100, Log INFO ''GPIO cleanup completed (pins left in HIGH state)'']"
    unfolding new_events_def t by simp
  have up: "py_upper ''up'' = ''UP''" "py_upper ''down'' = ''DOWN''" "py_upper ''left'' = ''LEFT''"
    "py_upper ''right'' = ''RIGHT''" "py_upper ''press'' = ''PRESS''" "py_upper ''key1'' = ''KEY1''"
    "py_upper ''key2'' = ''KEY2''" "py_upper ''key3'' = ''KEY3''"
    by (simp_all add: py_upper_def py_upper_char_def)
  have si: "str_int 31 = ''31''" "str_int 35 = ''35''" "str_int 29 = ''29''" "str_int 37 = ''37''"
    "str_int 33 = ''33''" "str_int 40 = ''40''" "str_int 38 = ''38''" "str_int 36 = ''36''"
    by (simp_all add: str_int_def str_nat.simps digit_char_def)
  have v: "evs =
       write_events 31 6 ''1'' (fault_at 0 w) @ [Log INFO ''  Set UP (Board 31) to HIGH'']
     @ write_events 35 19 ''1'' (fault_at 1 w) @ [Log INFO ''  Set DOWN (Board 35) to HIGH'']
     @ write_events 29 5 ''1'' (fault_at 2 w) @ [Log INFO ''  Set LEFT (Board 29) to HIGH'']
     @ write_events 37 26 ''1'' (fault_at 3 w) @ [Log INFO ''  Set RIGHT (Board 37) to HIGH'']
     @ write_events 33 13 ''1'' (fault_at 4 w) @ [Log INFO ''  Set PRESS (Board 33) to HIGH'']
     @ write_events 40 21 ''1'' (fault_at 5 w) @ [Log INFO ''  Set KEY1 (Board 40) to HIGH'']
     @ write_events 38 20 ''1'' (fault_at 6 w) @ [Log INFO ''  Set KEY2 (Board 38) to HIGH'']
     @ write_events 36 16 ''1'' (fault_at 7 w) @ [Log INFO ''  Set KEY3 (Board 36) to HIGH'']"
    unfolding evs_def f
    by (simp add: gpio_pins_def board_to_bcm_def eval_nat_numeral up si)
  show ?thesis
    unfolding n v by simp
qed

lemma cleanup_gpio_file_ops:
  "file_ops (new_events w (cleanup_gpio w)) =
     [(value_path 6, ''1'', fault_at 0 w = None), (value_path 19, ''1'', fault_at 1 w = None),
      (value_path 5, ''1'', fault_at 2 w = None), (value_path 26, ''1'', fault_at 3 w = None),
      (value_path 13, ''1'', fault_at 4 w = None), (value_path 21, ''1'', fault_at 5 w = None),
      (value_path 20, ''1'', fault_at 6 w = None), (value_path 16, ''1'', fault_at 7 w = None)]"
proof -
  define w1 where "w1 = logger_info ''Starting safe GPIO cleanup...'' w"
  have ok: "list_all (\<lambda>(a, p). map_of board_to_bcm p \<noteq> None) gpio_pins"
    by (simp add: gpio_pins_def board_to_bcm_def)
  from cleanup_pins_trace [OF ok, of w1] obtain evs where
    e: "trace (cleanup_pins gpio_pins w1) = trace w1 @ evs"
      "file_ops evs = map (\<lambda>(k, a, p). (value_path (the (map_of board_to_bcm p)), ''1'', fault_at k w1 = None))
                 (enumerate 0 gpio_pins)" by blast
  have f: "\<And>k. fault_at k w1 = fault_at k w"
    by (simp add: w1_def logger_info_def fault_at_emit)
  have t1: "trace w1 = trace w @ [Log INFO ''Starting safe GPIO cleanup...'']"
    by (simp add: w1_def logger_info_def trace_emit)
  have c: "cleanup_gpio w = logger_info ''GPIO cleanup completed (pins left in HIGH state)''
      (time_sleep 100 (cleanup_pins gpio_pins w1))"
    unfolding cleanup_gpio_def Let_def w1_def ..
  have t: "trace (cleanup_gpio w) = trace w @ [Log INFO ''Starting safe GPIO cleanup...''] @ evs
      @ [Sleep 100, Log INFO ''GPIO cleanup completed (pins left in HIGH state)'']"
    unfolding c by (simp add: logger_info_def time_sleep_def trace_emit e(1) t1)
  have "file_ops (new_events w (cleanup_gpio w)) = file_ops evs"
    unfolding new_events_def t by (simp add: file_ops_append)
  also have "\<dots> = map (\<lambda>(k, a, p). (value_path (the (map_of board_to_bcm p)), ''1'', fault_at k w = None))
                 (enumerate 0 gpio_pins)"
    unfolding e(2) f ..
  also have "\<dots> = [(value_path 6, ''1'', fault_at 0 w = None), (value_path 19, ''1'', fault_at 1 w = None),
      (value_path 5, ''1'', fault_at 2 w = None), (value_path 26, ''1'', fault_at 3 w = None),
      (value_path 13, ''1'', fault_at 4 w = None), (value_path 21, ''1'', fault_at 5 w = None),
      (value_path 20, ''1'', fault_at 6 w = None), (value_path 16, ''1'', fault_at 7 w = None)]"
    by (simp add: gpio_pins_def board_to_bcm_def eval_nat_numeral)
  finally show ?thesis .
qed

text \<open>
  C4, as amended.  From any world, the events of \<open>cleanup_gpio\<close> are: its first log
  record; then for each registered pin, in the order of the registry, one attempt to
  write the level 1 (HIGH) to the pin's value file followed by the record
  \<open>Set ... to HIGH\<close>; then the delay and the last record.  The \<open>k\<close>-th attempt reaches
  the pin if and only if the \<open>k\<close>-th write to come does not raise; when it raises, the
  error record \<open>Failed to write to GPIO\<close> follows it, and the attempt is not repeated.
  So exactly eight file writes are attempted, all of them HIGH, one per pin.
\<close>

theorem cleanup_attempts_high_once_per_pin:
  "new_events w (cleanup_gpio w) =
     [Log INFO ''Starting safe GPIO cleanup...'']
     @ write_events 31 6 ''1'' (fault_at 0 w) @ [Log INFO ''  Set UP (Board 31) to HIGH'']
     @ write_events 35 19 ''1'' (fault_at 1 w) @ [Log INFO ''  Set DOWN (Board 35) to HIGH'']
     @ write_events 29 5 ''1'' (fault_at 2 w) @ [Log INFO ''  Set LEFT (Board 29) to HIGH'']
     @ write_events 37 26 ''1'' (fault_at 3 w) @ [Log INFO ''  Set RIGHT (Board 37) to HIGH'']
     @ write_events 33 13 ''1'' (fault_at 4 w) @ [Log INFO ''  Set PRESS (Board 33) to HIGH'']
     @ write_events 40 21 ''1'' (fault_at 5 w) @ [Log INFO ''  Set KEY1 (Board 40) to HIGH'']
     @ write_events 38 20 ''1'' (fault_at 6 w) @ [Log INFO ''  Set KEY2 (Board 38) to HIGH'']
     @ write_events 36 16 ''1'' (fault_at 7 w) @ [Log INFO ''  Set KEY3 (Board 36) to HIGH'']
     @ [Sleep 100, Log INFO ''GPIO cleanup completed (pins left in HIGH state)'']
   \<and> file_ops (new_events w (cleanup_gpio w)) =
     [(value_path 6, ''1'', fault_at 0 w = None), (value_path 19, ''1'', fault_at 1 w = None),
      (value_path 5, ''1'', fault_at 2 w = None), (value_path 26, ''1'', fault_at 3 w = None),
      (value_path 13, ''1'', fault_at 4 w = None), (value_path 21, ''1'', fault_at 5 w = None),
      (value_path 20, ''1'', fault_at 6 w = None), (value_path 16, ''1'', fault_at 7 w = None)]"
  using cleanup_gpio_events [of w] cleanup_gpio_file_ops [of w] by (rule conjI)

text \<open>
  C4, as stated, fails when a write raises: if the first write of the shutdown is
  refused, no HIGH level reaches the \<open>up\<close> pin (board pin 31, chip pin 6).
\<close>

theorem cleanup_skips_failed_pin:
  "levels_written (value_path 6)
     (new_events (fresh_world [] [Some ''Permission denied''])
        (cleanup_gpio (fresh_world [] [Some ''Permission denied'']))) = []"
  by (simp add: levels_written_def cleanup_gpio_file_ops fault_at_def fresh_world_def value_path_def
      str_int_def str_nat.simps digit_char_def)


section \<open>The key decoder: what it returns and when\<close>

lemmas decoder_simps = get_char_def get_char_try_def and_then_def select_stdin_def stdin_read1_def
  tty_setraw_def tcsetattr_def next_tty_fault_def discard_pending_def py_truthy_def
  fresh_world_def cooked_def ESC_def Let_def

lemma and_then_not_None:
  assumes "\<And>x w1. fst (f x w1) \<noteq> Returned None"
  shows "fst (and_then m f) \<noteq> Returned None"
  using assms by (cases m) (auto simp: and_then_def split: outcome.splits)

lemma if_not_None:
  assumes "c \<Longrightarrow> fst a \<noteq> Returned None" and "\<not> c \<Longrightarrow> fst b \<noteq> Returned None"
  shows "fst (if c then a else b) \<noteq> Returned None"
  using assms by simp

lemma poll_and_read_never_None:
  "fst (and_then (select_stdin 100 w0) (\<lambda>r1 w.
         if py_truthy r1 then
           and_then (stdin_read1 w) (\<lambda>ch w.
             if ch = [ESC] then
               and_then (select_stdin 100 w) (\<lambda>r2 w.
                 if py_truthy r2 then
                   and_then (stdin_read1 w) (\<lambda>c2 w.
                     and_then (select_stdin 100 w) (\<lambda>r3 w.
                       if py_truthy r3 then
                         and_then (stdin_read1 w) (\<lambda>c3 w.
                           (Returned (Some ((ch @ c2) @ c3)), w))
                       else (Returned (Some (ch @ c2)), w)))
                 else (Returned (Some ch), w))
             else (Returned (Some ch), w))
         else (Returned None, w))) \<noteq> Returned None"
proof (cases "select_stdin 100 w0")
  case (Pair r wa)
  show ?thesis
  proof (cases r)
    case (Returned r1)
    with Pair have t: "py_truthy r1"
      by (auto dest: select_stdin_truthy)
    have "fst (and_then (stdin_read1 wa) (\<lambda>ch w.
           if ch = [ESC] then
             and_then (select_stdin 100 w) (\<lambda>r2 w.
               if py_truthy r2 then
                 and_then (stdin_read1 w) (\<lambda>c2 w.
                   and_then (select_stdin 100 w) (\<lambda>r3 w.
                     if py_truthy r3 then
                       and_then (stdin_read1 w) (\<lambda>c3 w.
                         (Returned (Some ((ch @ c2) @ c3)), w))
                     else (Returned (Some (ch @ c2)), w)))
               else (Returned (Some ch), w))
           else (Returned (Some ch), w))) \<noteq> Returned None"
      by (intro and_then_not_None if_not_None) simp_all
    with Pair Returned t show ?thesis
      by (simp add: and_then_def)
  next
    case (Raised e)
    with Pair show ?thesis by (simp add: and_then_def)
  next
    case Blocked
    with Pair show ?thesis by (simp add: and_then_def)
  qed
qed

lemma get_char_try_never_None: "fst (get_char_try w) \<noteq> Returned None"
  unfolding get_char_try_def
  by (rule and_then_not_None) (rule poll_and_read_never_None)

lemma get_char_never_None: "fst (get_char w) \<noteq> Returned None"
  using get_char_try_never_None [of w]
  by (cases "get_char_try w"; cases "tcsetattr TCSADRAIN (tty_attr w) (snd (get_char_try w))")
     (auto simp: get_char_def Let_def split: outcome.splits)

text \<open>
  C1.  The decoder does not return "no event" when nothing is available within the
  poll timeout.  \<open>select.select\<close> returns a tuple of three lists, which is true in the
  \<open>if\<close> also when all three are empty, so the read always follows: with no input at all
  the decoder never returns, and with a first character arriving after 5000 ms it returns
  that character at 5000 ms, not \<open>None\<close> after the 100 ms timeout.
\<close>

theorem get_char_blocks_without_input:
  "fst (get_char (fresh_world [] [])) = Blocked
   \<and> fst (get_char (fresh_world [(5000, Byte (CHR ''a''))] [])) = Returned (Some ''a'')
   \<and> clock (snd (get_char (fresh_world [(5000, Byte (CHR ''a''))] []))) = 5000"
  by (simp add: decoder_simps)

text \<open>
  C5.  After an escape character the decoder does not fall back to what it has
  accumulated when the follow-up characters are late.  With the escape character alone
  (typed 30 ms into the call) it never returns; with follow-up characters arriving after
  5000 ms and 9000 ms it waits for both and returns the three characters at 9000 ms.
\<close>

theorem get_char_blocks_after_escape:
  "fst (get_char (fresh_world [(30, Byte ESC)] [])) = Blocked
   \<and> fst (get_char (fresh_world [(30, Byte ESC), (5000, Byte (CHR ''x'')), (9000, Byte (CHR ''y''))] []))
       = Returned (Some [ESC, CHR ''x'', CHR ''y''])
   \<and> clock (snd (get_char (fresh_world [(30, Byte ESC), (5000, Byte (CHR ''x'')), (9000, Byte (CHR ''y''))] [])))
       = 9000"
  by (simp add: decoder_simps)





section \<open>The dispatch loop and the end of the process\<close>

lemma main_loop_blocked:
  assumes "is_running w" and "get_char w = (Blocked, w1)"
  shows "main_loop w = (Blocked, w1)"
  using assms by (subst main_loop.simps) simp

lemma main_loop_quit:
  assumes "is_running w" and "get_char w = (Returned (Some tok), w1)" and "py_lower tok = ''q''"
  shows "main_loop w = (Returned (), logger_info ''Quit command received'' w1)"
  using assms by (subst main_loop.simps) simp

lemma select_stdin_frame:
  "trace (snd (select_stdin t w)) = trace w \<and> io_faults (snd (select_stdin t w)) = io_faults w
   \<and> is_running (snd (select_stdin t w)) = is_running w"
  by (simp add: select_stdin_def split: list.split tty_event.split)

lemma stdin_read1_frame:
  "trace (snd (stdin_read1 w)) = trace w \<and> io_faults (snd (stdin_read1 w)) = io_faults w
   \<and> is_running (snd (stdin_read1 w)) = is_running w"
  by (simp add: stdin_read1_def split: list.split tty_event.split)

lemma and_then_frame:
  assumes "same_outside w (snd m)"
    and "\<And>x w1. same_outside w w1 \<Longrightarrow> same_outside w (snd (f x w1))"
  shows "same_outside w (snd (and_then m f))"
  using assms by (cases m) (auto simp: and_then_def split: outcome.splits)

lemma select_stdin_same: "same_outside w w1 \<Longrightarrow> same_outside w (snd (select_stdin t w1))"
  using select_stdin_frame [of t w1] by (simp add: same_outside_def)

lemma stdin_read1_same: "same_outside w w1 \<Longrightarrow> same_outside w (snd (stdin_read1 w1))"
  using stdin_read1_frame [of w1] by (simp add: same_outside_def)

lemma if_same:
  assumes "c \<Longrightarrow> same_outside w (snd a)" and "\<not> c \<Longrightarrow> same_outside w (snd b)"
  shows "same_outside w (snd (if c then a else b))"
  using assms by simp

lemma tcsetattr_same: "same_outside w w1 \<Longrightarrow> same_outside w (snd (tcsetattr opt attrs w1))"
  by (simp add: same_outside_def tcsetattr_def split: option.split)

lemma same_outside_refl: "same_outside w w"
  by (simp add: same_outside_def)

lemma get_char_try_same: "same_outside w (snd (get_char_try w))"
  unfolding get_char_try_def tty_setraw_def
  by (intro and_then_frame select_stdin_same stdin_read1_same if_same tcsetattr_same
      same_outside_refl)
     (simp_all add: same_outside_def)

lemma get_char_same: "same_outside w (snd (get_char w))"
proof (cases "get_char_try w")
  case (Pair r w1)
  with get_char_try_same [of w] have s1: "same_outside w w1" by simp
  obtain r2 w2 where c: "tcsetattr TCSADRAIN (tty_attr w) w1 = (r2, w2)"
    by (cases "tcsetattr TCSADRAIN (tty_attr w) w1")
  with tcsetattr_same [OF s1, of TCSADRAIN "tty_attr w"] have s2: "same_outside w w2" by simp
  from Pair c s1 s2 show ?thesis
    by (cases r; cases r2) (simp_all add: get_char_def same_outside_refl)
qed

text \<open>
  C9, as amended.  When the decoder yields a token that is not a key of \<open>key_mapping\<close>
  and whose lower-case form is not \<open>q\<close>, the iteration adds no event (no file write, no
  thread), consumes no entry of the fault schedule, and the loop goes on with its next
  iteration from the world the decoder left.
\<close>

theorem unmapped_token_ignored:
  assumes "is_running w" and "get_char w = (Returned (Some tok), w1)"
    and "py_lower tok \<noteq> ''q''" and "map_of key_mapping tok = None"
  shows "main_loop w = main_loop w1 \<and> trace w1 = trace w \<and> io_faults w1 = io_faults w
       \<and> is_running w1"
proof -
  have l: "main_loop w = main_loop w1"
    using assms by (subst main_loop.simps) simp
  from get_char_same [of w] assms(1,2) have "trace w1 = trace w" "io_faults w1 = io_faults w" "is_running w1"
    by (simp_all add: same_outside_def)
  with l show ?thesis by simp
qed


text \<open>The token \<open>z\<close> is ignored.\<close>

theorem unmapped_token_ignored_witness:
  "is_running ((fresh_world [(50, Byte (CHR ''z''))] [])\<lparr>is_running := True\<rparr>)
   \<and> fst (get_char ((fresh_world [(50, Byte (CHR ''z''))] [])\<lparr>is_running := True\<rparr>)) = Returned (Some ''z'')
   \<and> py_lower ''z'' \<noteq> ''q'' \<and> map_of key_mapping ''z'' = None
   \<and> main_loop ((fresh_world [(50, Byte (CHR ''z''))] [])\<lparr>is_running := True\<rparr>)
       = main_loop (snd (get_char ((fresh_world [(50, Byte (CHR ''z''))] [])\<lparr>is_running := True\<rparr>)))
   \<and> trace (snd (get_char ((fresh_world [(50, Byte (CHR ''z''))] [])\<lparr>is_running := True\<rparr>))) = []"
proof -
  let ?W = "(fresh_world [(50, Byte (CHR ''z''))] [])\<lparr>is_running := True\<rparr>"
  have a: "is_running ?W" by simp
  have g: "fst (get_char ?W) = Returned (Some ''z'')"
    by (simp add: decoder_simps)
  then have b: "get_char ?W = (Returned (Some ''z''), snd (get_char ?W))"
    by (metis prod.collapse)
  have c: "py_lower ''z'' \<noteq> ''q''"
    by (simp add: py_lower_def py_lower_char_def)
  have d: "map_of key_mapping ''z'' = None"
    by (simp add: key_mapping_def CR_def)
  have e: "trace ?W = []" by (simp add: fresh_world_def)
  from unmapped_token_ignored [OF a b c d] a g c d e show ?thesis
    by simp
qed

lemma cleanup_gpio_extends: "trace (cleanup_gpio w) = trace w @ new_events w (cleanup_gpio w)"
proof -
  define w1 where "w1 = logger_info ''Starting safe GPIO cleanup...'' w"
  have ok: "list_all (\<lambda>(a, p). map_of board_to_bcm p \<noteq> None) gpio_pins"
    by (simp add: gpio_pins_def board_to_bcm_def)
  from cleanup_pins_trace [OF ok, of w1] obtain evs where
    e: "trace (cleanup_pins gpio_pins w1) = trace w1 @ evs" by blast
  have t1: "trace w1 = trace w @ [Log INFO ''Starting safe GPIO cleanup...'']"
    by (simp add: w1_def logger_info_def trace_emit)
  have c: "cleanup_gpio w = logger_info ''GPIO cleanup completed (pins left in HIGH state)''
      (time_sleep 100 (cleanup_pins gpio_pins w1))"
    unfolding cleanup_gpio_def Let_def w1_def ..
  have "\<exists>evs. trace (cleanup_gpio w) = trace w @ evs"
    unfolding c by (simp add: logger_info_def time_sleep_def trace_emit e t1)
  then show ?thesis
    by (auto simp: new_events_def)
qed

lemma py_lower_q: "py_lower ''q'' = ''q''" "py_lower ''Q'' = ''q''"
  by (simp_all add: py_lower_def py_lower_char_def)

text \<open>
  C7.  When the decoder yields \<open>q\<close> or \<open>Q\<close>, the loop ends in this iteration; the rest
  of the program logs the quit, runs the shutdown (the eight HIGH writes of
  \<open>cleanup_gpio\<close>, each reaching its pin unless that write raises), logs the stop and
  the completion, and the process ends with status 0.
\<close>

theorem quit_token_shuts_down:
  assumes run: "is_running w" and got: "get_char w = (Returned (Some tok), w1)"
    and tok: "tok = ''q'' \<or> tok = ''Q''"
  shows "main_loop w = (Returned (), logger_info ''Quit command received'' w1)
       \<and> fst (main_exit (finish_bridge (main_loop w))) = Exit 0
       \<and> new_events w1 (snd (main_exit (finish_bridge (main_loop w)))) =
           Log INFO ''Quit command received''
           # new_events ((logger_info ''Quit command received'' w1)\<lparr>is_running := False\<rparr>)
               (cleanup_gpio ((logger_info ''Quit command received'' w1)\<lparr>is_running := False\<rparr>))
           @ [Log INFO ''GPIO Bridge stopped'', Log INFO ''Bridge completed successfully'']
       \<and> file_ops (new_events w1 (snd (main_exit (finish_bridge (main_loop w))))) =
           [(value_path 6, ''1'', fault_at 0 w1 = None), (value_path 19, ''1'', fault_at 1 w1 = None),
            (value_path 5, ''1'', fault_at 2 w1 = None), (value_path 26, ''1'', fault_at 3 w1 = None),
            (value_path 13, ''1'', fault_at 4 w1 = None), (value_path 21, ''1'', fault_at 5 w1 = None),
            (value_path 20, ''1'', fault_at 6 w1 = None), (value_path 16, ''1'', fault_at 7 w1 = None)]"
proof -
  define wq where "wq = (logger_info ''Quit command received'' w1)\<lparr>is_running := False\<rparr>"
  from tok have lq: "py_lower tok = ''q''"
    by (auto simp: py_lower_q)
  have l: "main_loop w = (Returned (), logger_info ''Quit command received'' w1)"
    using run got lq by (subst main_loop.simps) simp
  have f: "finish_bridge (main_loop w) = (Returned True, logger_info ''GPIO Bridge stopped'' (cleanup_gpio wq))"
    unfolding l by (simp add: finish_bridge_def stop_bridge_def wq_def)
  have m: "main_exit (finish_bridge (main_loop w)) =
      (Exit 0, logger_info ''Bridge completed successfully''
         (logger_info ''GPIO Bridge stopped'' (cleanup_gpio wq)))"
    unfolding f by (simp add: main_exit_def)
  have tq: "trace wq = trace w1 @ [Log INFO ''Quit command received'']"
    by (simp add: wq_def logger_info_def emit_def)
  have t: "trace (snd (main_exit (finish_bridge (main_loop w)))) =
      trace w1 @ Log INFO ''Quit command received'' # new_events wq (cleanup_gpio wq)
        @ [Log INFO ''GPIO Bridge stopped'', Log INFO ''Bridge completed successfully'']"
    unfolding m using cleanup_gpio_extends [of wq]
    by (simp add: logger_info_def trace_emit tq)
  have n: "new_events w1 (snd (main_exit (finish_bridge (main_loop w)))) =
      Log INFO ''Quit command received'' # new_events wq (cleanup_gpio wq)
        @ [Log INFO ''GPIO Bridge stopped'', Log INFO ''Bridge completed successfully'']"
    by (subst new_events_def) (simp add: t)
  have fq: "\<And>k. fault_at k wq = fault_at k w1"
    by (simp add: wq_def fault_at_def logger_info_def emit_def)
  have o: "file_ops (new_events w1 (snd (main_exit (finish_bridge (main_loop w))))) =
           [(value_path 6, ''1'', fault_at 0 w1 = None), (value_path 19, ''1'', fault_at 1 w1 = None),
            (value_path 5, ''1'', fault_at 2 w1 = None), (value_path 26, ''1'', fault_at 3 w1 = None),
            (value_path 13, ''1'', fault_at 4 w1 = None), (value_path 21, ''1'', fault_at 5 w1 = None),
            (value_path 20, ''1'', fault_at 6 w1 = None), (value_path 16, ''1'', fault_at 7 w1 = None)]"
    unfolding n by (simp add: file_ops_append cleanup_gpio_file_ops fq)
  from l m n o show ?thesis
    unfolding wq_def by simp
qed

text \<open>
  C9, as stated, fails for the token \<open>Q\<close>: it is not a key of \<open>key_mapping\<close>, yet the
  loop does not go on to its next iteration (which would wait for input for ever) but
  ends.
\<close>

theorem upper_q_unmapped_but_quits:
  "map_of key_mapping ''Q'' = None
   \<and> fst (get_char ((fresh_world [(50, Byte (CHR ''Q''))] [])\<lparr>is_running := True\<rparr>)) = Returned (Some ''Q'')
   \<and> fst (main_loop ((fresh_world [(50, Byte (CHR ''Q''))] [])\<lparr>is_running := True\<rparr>)) = Returned ()
   \<and> fst (main_loop (snd (get_char ((fresh_world [(50, Byte (CHR ''Q''))] [])\<lparr>is_running := True\<rparr>))))
       = Blocked
   \<and> main_loop ((fresh_world [(50, Byte (CHR ''Q''))] [])\<lparr>is_running := True\<rparr>)
       \<noteq> main_loop (snd (get_char ((fresh_world [(50, Byte (CHR ''Q''))] [])\<lparr>is_running := True\<rparr>)))"
proof -
  let ?W = "(fresh_world [(50, Byte (CHR ''Q''))] [])\<lparr>is_running := True\<rparr>"
  have d: "map_of key_mapping ''Q'' = None"
    by (simp add: key_mapping_def CR_def ESC_def)
  have r: "is_running ?W" by simp
  have g: "get_char ?W = (Returned (Some ''Q''), ?W\<lparr>clock := 50, stdin_q := []\<rparr>)"
    by (simp add: decoder_simps)
  have l: "main_loop ?W = (Returned (), logger_info ''Quit command received'' (?W\<lparr>clock := 50, stdin_q := []\<rparr>))"
    by (rule main_loop_quit [OF r g]) (simp add: py_lower_q)
  have b: "fst (get_char (?W\<lparr>clock := 50, stdin_q := []\<rparr>)) = Blocked"
    by (simp add: decoder_simps)
  then have b': "get_char (?W\<lparr>clock := 50, stdin_q := []\<rparr>) = (Blocked, snd (get_char (?W\<lparr>clock := 50, stdin_q := []\<rparr>)))"
    by (metis prod.collapse)
  have r': "is_running (?W\<lparr>clock := 50, stdin_q := []\<rparr>)" by simp
  have n: "fst (main_loop (?W\<lparr>clock := 50, stdin_q := []\<rparr>)) = Blocked"
    unfolding main_loop_blocked [OF r' b'] by simp
  have s: "snd (get_char ?W) = ?W\<lparr>clock := 50, stdin_q := []\<rparr>"
    unfolding g by (rule snd_conv)
  have c2: "fst (get_char ?W) = Returned (Some ''Q'')"
    unfolding g by (rule fst_conv)
  have c3: "fst (main_loop ?W) = Returned ()"
    unfolding l by (rule fst_conv)
  have c5: "main_loop ?W \<noteq> main_loop (?W\<lparr>clock := 50, stdin_q := []\<rparr>)"
  proof
    assume "main_loop ?W = main_loop (?W\<lparr>clock := 50, stdin_q := []\<rparr>)"
    then have "fst (main_loop ?W) = fst (main_loop (?W\<lparr>clock := 50, stdin_q := []\<rparr>))"
      by (rule arg_cong)
    with c3 n show False by simp
  qed
  from d c2 c3 n c5 show ?thesis
    unfolding s by blast
qed

text \<open>The token \<open>Q\<close> with no failing write: status 0 after eight successful HIGH writes.\<close>

theorem quit_token_shuts_down_witness:
  "is_running ((fresh_world [(50, Byte (CHR ''Q''))] [])\<lparr>is_running := True\<rparr>)
   \<and> fst (get_char ((fresh_world [(50, Byte (CHR ''Q''))] [])\<lparr>is_running := True\<rparr>)) = Returned (Some ''Q'')
   \<and> fst (main_exit (finish_bridge (main_loop ((fresh_world [(50, Byte (CHR ''Q''))] [])\<lparr>is_running := True\<rparr>))))
       = Exit 0
   \<and> file_ops (trace (snd (main_exit (finish_bridge
         (main_loop ((fresh_world [(50, Byte (CHR ''Q''))] [])\<lparr>is_running := True\<rparr>)))))) =
      [(''/sys/class/gpio/gpio6/value'', ''1'', True), (''/sys/class/gpio/gpio19/value'', ''1'', True),
       (''/sys/class/gpio/gpio5/value'', ''1'', True), (''/sys/class/gpio/gpio26/value'', ''1'', True),
       (''/sys/class/gpio/gpio13/value'', ''1'', True), (''/sys/class/gpio/gpio21/value'', ''1'', True),
       (''/sys/class/gpio/gpio20/value'', ''1'', True), (''/sys/class/gpio/gpio16/value'', ''1'', True)]"
proof -
  let ?W = "(fresh_world [(50, Byte (CHR ''Q''))] [])\<lparr>is_running := True\<rparr>"
  have a: "is_running ?W" by simp
  have g: "fst (get_char ?W) = Returned (Some ''Q'')"
    by (simp add: decoder_simps)
  then have b: "get_char ?W = (Returned (Some ''Q''), snd (get_char ?W))"
    by (metis prod.collapse)
  have c: "''Q'' = ''q'' \<or> ''Q'' = ''Q''" by simp
  have t1: "trace (snd (get_char ?W)) = []"
    using get_char_same [of ?W] by (simp add: same_outside_def fresh_world_def)
  have f1: "\<And>k. fault_at k (snd (get_char ?W)) = None"
    using get_char_same [of ?W] by (simp add: same_outside_def fresh_world_def fault_at_def)
  note q = quit_token_shuts_down [OF a b c]
  from q have e: "fst (main_exit (finish_bridge (main_loop ?W))) = Exit 0" by blast
  from q have o1: "file_ops (new_events (snd (get_char ?W)) (snd (main_exit (finish_bridge (main_loop ?W))))) =
      [(value_path 6, ''1'', fault_at 0 (snd (get_char ?W)) = None),
       (value_path 19, ''1'', fault_at 1 (snd (get_char ?W)) = None),
       (value_path 5, ''1'', fault_at 2 (snd (get_char ?W)) = None),
       (value_path 26, ''1'', fault_at 3 (snd (get_char ?W)) = None),
       (value_path 13, ''1'', fault_at 4 (snd (get_char ?W)) = None),
       (value_path 21, ''1'', fault_at 5 (snd (get_char ?W)) = None),
       (value_path 20, ''1'', fault_at 6 (snd (get_char ?W)) = None),
       (value_path 16, ''1'', fault_at 7 (snd (get_char ?W)) = None)]"
    by blast
  have n: "new_events (snd (get_char ?W)) (snd (main_exit (finish_bridge (main_loop ?W)))) =
      trace (snd (main_exit (finish_bridge (main_loop ?W))))"
    by (simp add: new_events_def t1)
  have o: "file_ops (trace (snd (main_exit (finish_bridge (main_loop ?W))))) =
      [(''/sys/class/gpio/gpio6/value'', ''1'', True), (''/sys/class/gpio/gpio19/value'', ''1'', True),
       (''/sys/class/gpio/gpio5/value'', ''1'', True), (''/sys/class/gpio/gpio26/value'', ''1'', True),
       (''/sys/class/gpio/gpio13/value'', ''1'', True), (''/sys/class/gpio/gpio21/value'', ''1'', True),
       (''/sys/class/gpio/gpio20/value'', ''1'', True), (''/sys/class/gpio/gpio16/value'', ''1'', True)]"
    using o1 unfolding n f1 by (simp add: value_path_def str_int_def str_nat.simps digit_char_def)
  from a g e o show ?thesis by blast
qed

text \<open>
  From the start of the program: setup and the instructions cannot fail with the tables
  as they are, so \<open>main\<close> always reaches the loop, with the terminal and the clock
  untouched; a first key \<open>q\<close> or \<open>Q\<close>, typed after the decoder has been called on a
  terminal that accepts its settings, ends the process with status 0.
\<close>

lemma same_terminal_refl: "same_terminal w w"
  by (simp add: same_terminal_def)

lemma same_terminal_trans: "same_terminal a b \<Longrightarrow> same_terminal b c \<Longrightarrow> same_terminal a c"
  by (simp add: same_terminal_def)

lemma emit_terminal: "same_terminal w (emit e w)"
  by (simp add: same_terminal_def emit_def)

lemma write_file_terminal: "same_terminal w (snd (write_file p d w))"
  by (simp add: write_file_def emit_def same_terminal_def split: option.split)

lemma export_pin_terminal: "same_terminal w (export_pin a b w)"
  using write_file_terminal [of w "gpio_base @ ''/export''" "str_int b"]
  by (cases "write_file (gpio_base @ ''/export'') (str_int b) w")
     (auto simp: export_pin_def logger_info_def logger_warning_def emit_def same_terminal_def
        split: sum.splits)

lemma configure_pin_terminal: "same_terminal w (configure_pin a bp b gp w)"
proof (cases "write_file (gp @ ''/direction'') ''out'' w")
  case (Pair r1 w1)
  with write_file_terminal [of w "gp @ ''/direction''" "''out''"]
  have f1: "same_terminal w w1" by simp
  show ?thesis
  proof (cases "write_file (gp @ ''/value'') ''1'' w1")
    case (Pair r2 w2)
    with write_file_terminal [of w1 "gp @ ''/value''" "''1''"]
    have "same_terminal w1 w2" by simp
    with f1 have f2: "same_terminal w w2" by (rule same_terminal_trans)
    from \<open>write_file (gp @ ''/direction'') ''out'' w = (r1, w1)\<close> Pair f1 f2 show ?thesis
      by (auto simp: configure_pin_def logger_info_def logger_warning_def emit_def
          same_terminal_def split: sum.splits)
  qed
qed

lemma registry_mapped: "list_all (\<lambda>(a, p). map_of board_to_bcm p \<noteq> None) gpio_pins"
  by (simp add: gpio_pins_def board_to_bcm_def)

lemma setup_pins_ok:
  assumes "list_all (\<lambda>(a, p). map_of board_to_bcm p \<noteq> None) pins"
  shows "\<exists>w'. setup_pins pins w = (Inr (), w') \<and> same_terminal w w'"
  using assms
proof (induction pins arbitrary: w)
  case Nil
  show ?case by (simp add: same_terminal_refl)
next
  case (Cons x rest)
  obtain a p where x: "x = (a, p)" by (cases x)
  from Cons.prems x obtain bcm where m: "map_of board_to_bcm p = Some bcm" by auto
  from Cons.prems have rest: "list_all (\<lambda>(a, p). map_of board_to_bcm p \<noteq> None) rest" by simp
  define w1 where "w1 = (if bcm \<notin> set (gpio_dirs w) then export_pin a bcm w else w)"
  define w2 where "w2 = configure_pin a p bcm (gpio_base @ ''/gpio'' @ str_int bcm) w1"
  have "same_terminal w w1"
    unfolding w1_def by (simp add: export_pin_terminal same_terminal_refl)
  moreover have "same_terminal w1 w2"
    unfolding w2_def by (rule configure_pin_terminal)
  ultimately have f: "same_terminal w w2" by (rule same_terminal_trans)
  have step: "setup_pins (x # rest) w = setup_pins rest w2"
    unfolding x w2_def w1_def by (simp add: m Let_def)
  from Cons.IH [OF rest, of w2] obtain w' where
    "setup_pins rest w2 = (Inr (), w')" and "same_terminal w2 w'" by blast
  with f show ?case
    unfolding step by (blast intro: same_terminal_trans)
qed

lemma print_line_terminal: "same_terminal w (print_line s w)"
  unfolding print_line_def by (rule emit_terminal)

lemma print_pin_lines_ok:
  assumes "list_all (\<lambda>(a, p). map_of board_to_bcm p \<noteq> None) pins"
  shows "\<exists>w'. print_pin_lines pins w = (Inr (), w') \<and> same_terminal w w'"
  using assms
proof (induction pins arbitrary: w)
  case Nil
  show ?case by (simp add: same_terminal_refl)
next
  case (Cons x rest)
  obtain a p where x: "x = (a, p)" by (cases x)
  from Cons.prems x obtain bcm where m: "map_of board_to_bcm p = Some bcm" by auto
  from Cons.prems have rest: "list_all (\<lambda>(a, p). map_of board_to_bcm p \<noteq> None) rest" by simp
  define w1 where "w1 = print_line (''  '' @ py_ljust 8 (py_upper a) @ '' -> Board Pin '' @ str_int p
               @ '' (BCM '' @ str_int bcm @ '')'') w"
  have f: "same_terminal w w1"
    unfolding w1_def by (rule print_line_terminal)
  have step: "print_pin_lines (x # rest) w = print_pin_lines rest w1"
    unfolding x w1_def by (simp add: m)
  from Cons.IH [OF rest, of w1] obtain w' where
    "print_pin_lines rest w1 = (Inr (), w')" and "same_terminal w1 w'" by blast
  with f show ?case
    unfolding step by (blast intro: same_terminal_trans)
qed

lemma print_line_terminal_step: "same_terminal w w1 \<Longrightarrow> same_terminal w (print_line s w1)"
  by (erule same_terminal_trans) (rule print_line_terminal)

lemma print_instructions_ok:
  "\<exists>w'. print_instructions w = (Inr (), w') \<and> same_terminal w w'"
proof -
  define w11 where "w11 = print_line ''GPIO Pin Mapping:'' (print_line (replicate 60 (CHR ''-''))
    (print_line ''  Q             -> Quit'' (print_line ''  1, 2, 3       -> KEY1, KEY2, KEY3''
    (print_line ''  SPACE/ENTER   -> Press/Select button''
    (print_line ''  WASD          -> Alternative directional buttons''
    (print_line ''  Arrow Keys    -> Directional buttons'' (print_line ''Key Mappings:''
    (print_line (replicate 60 (CHR ''=''))
    (print_line ''GPIO Bridge: Safe Keyboard to Hardware Button Simulation''
    (print_line (LF # replicate 60 (CHR ''='')) w))))))))))"
  have f11: "same_terminal w w11"
    unfolding w11_def by (intro print_line_terminal_step same_terminal_refl)
  from print_pin_lines_ok [OF registry_mapped, of w11] obtain w12 where
    p: "print_pin_lines gpio_pins w11 = (Inr (), w12)" and "same_terminal w11 w12"
    by blast
  with f11 have f12: "same_terminal w w12" by (blast intro: same_terminal_trans)
  have e: "print_instructions w =
      (Inr (), print_line [] (print_line ''(Press 'q' to quit)''
        (print_line ''Press keys to simulate button presses...''
        (print_line ''This version uses sysfs and won't conflict with your main.py''
        (print_line (replicate 60 (CHR ''='')) w12)))))"
    unfolding print_instructions_def Let_def w11_def [symmetric] p by simp
  have "same_terminal w (print_line [] (print_line ''(Press 'q' to quit)''
        (print_line ''Press keys to simulate button presses...''
        (print_line ''This version uses sysfs and won't conflict with your main.py''
        (print_line (replicate 60 (CHR ''='')) w12)))))"
    by (intro print_line_terminal_step f12)
  with e show ?thesis by blast
qed

lemma main_reaches_loop:
  "\<exists>w2. main w = main_exit (finish_bridge (main_loop w2)) \<and> is_running w2
        \<and> stdin_q w2 = stdin_q w \<and> is_tty w2 = is_tty w \<and> clock w2 = clock w
        \<and> tty_faults w2 = tty_faults w"
proof -
  define w0 where "w0 = print_line ''Starting Safe GPIO Bridge...'' w"
  have f0: "same_terminal w w0"
    unfolding w0_def by (rule print_line_terminal)
  from setup_pins_ok [OF registry_mapped, of w0] obtain wa where
    s: "setup_pins gpio_pins w0 = (Inr (), wa)" and fa: "same_terminal w0 wa"
    by blast
  define w1 where "w1 = (logger_info ''GPIO setup completed using sysfs'' wa)\<lparr>is_running := True\<rparr>"
  have f1: "stdin_q w1 = stdin_q w" "is_tty w1 = is_tty w" "clock w1 = clock w"
    "tty_faults w1 = tty_faults w" "is_running w1"
    using fa f0 by (simp_all add: w1_def logger_info_def emit_def same_terminal_def)
  from print_instructions_ok [of w1] obtain w2 where
    p: "print_instructions w1 = (Inr (), w2)" and f2: "same_terminal w1 w2"
    by blast
  have "main w = main_exit (finish_bridge (main_loop w2))"
    unfolding main_def start_bridge_def setup_gpio_sysfs_def w0_def [symmetric] s
    using p by (simp add: w1_def)
  with f1 f2 show ?thesis
    by (auto simp: same_terminal_def)
qed

lemma tty_setraw_no_typeahead:
  assumes "tty_faults w = []" and "stdin_q w = (t, ev) # rest" and "clock w < t"
  shows "\<exists>w'. tty_setraw w = (Returned (), w') \<and> stdin_q w' = stdin_q w \<and> tty_faults w' = []"
  using assms
  by (simp add: tty_setraw_def tcsetattr_def next_tty_fault_def discard_pending_def)

lemma select_stdin_byte:
  assumes "stdin_q w = (t, Byte c) # rest"
  shows "\<exists>r w'. select_stdin n w = (Returned r, w') \<and> py_truthy r \<and> stdin_q w' = stdin_q w
           \<and> tty_faults w' = tty_faults w"
  using assms by (simp add: select_stdin_def py_truthy_def)

lemma stdin_read1_byte:
  assumes "stdin_q w = (t, Byte c) # rest"
  shows "\<exists>w'. stdin_read1 w = (Returned [c], w') \<and> tty_faults w' = tty_faults w"
  using assms by (simp add: stdin_read1_def)

lemma get_char_plain_key:
  assumes "is_tty w" and "tty_faults w = []" and "stdin_q w = (t, Byte c) # rest"
    and "clock w < t" and "c \<noteq> ESC"
  shows "fst (get_char w) = Returned (Some [c])"
proof -
  from tty_setraw_no_typeahead [OF assms(2,3,4)] obtain w0 where
    s0: "tty_setraw w = (Returned (), w0)" and q0: "stdin_q w0 = (t, Byte c) # rest"
    and f0: "tty_faults w0 = []"
    using assms(3) by auto
  from select_stdin_byte [OF q0, of 100] obtain r1 wa where
    s: "select_stdin 100 w0 = (Returned r1, wa)" and t: "py_truthy r1"
    and q: "stdin_q wa = (t, Byte c) # rest" and fa: "tty_faults wa = []"
    using q0 f0 by auto
  from stdin_read1_byte [OF q] obtain wb where
    r: "stdin_read1 wa = (Returned [c], wb)" and fb: "tty_faults wb = []"
    using fa by auto
  have a0: "and_then (tty_setraw w) f = f () w0" for f :: "unit \<Rightarrow> world \<Rightarrow> string option outcome \<times> world"
    by (simp add: and_then_def s0)
  have a1: "and_then (stdin_read1 wa) f = f [c] wb" for f :: "string \<Rightarrow> world \<Rightarrow> string option outcome \<times> world"
    by (simp add: and_then_def r)
  have b: "get_char_try w = (Returned (Some [c]), wb)"
    unfolding get_char_try_def a0 s
    by (subst and_then_def) (simp add: t a1 assms(5))
  have "fst (tcsetattr TCSADRAIN (tty_attr w) wb) = Returned ()"
    using fb by (simp add: tcsetattr_def next_tty_fault_def)
  with assms(1) b show ?thesis
    by (cases "tcsetattr TCSADRAIN (tty_attr w) wb") (simp add: get_char_def)
qed

lemma main_first_key_quit:
  assumes "is_tty w" and "tty_faults w = []" and "stdin_q w = (t, Byte c) # rest"
    and "clock w < t" and "c = CHR ''q'' \<or> c = CHR ''Q''"
  shows "fst (main w) = Exit 0"
proof -
  from main_reaches_loop [of w] obtain w2 where
    m: "main w = main_exit (finish_bridge (main_loop w2))" and r: "is_running w2"
    and q: "stdin_q w2 = stdin_q w" and y: "is_tty w2 = is_tty w"
    and k: "clock w2 = clock w" and f: "tty_faults w2 = tty_faults w"
    by blast
  from assms(5) have ne: "c \<noteq> ESC"
    by (auto simp: ESC_def)
  from get_char_plain_key [of w2 t c rest] assms(1-4) q y k f ne
  have "fst (get_char w2) = Returned (Some [c])" by simp
  then have g: "get_char w2 = (Returned (Some [c]), snd (get_char w2))"
    by (metis prod.collapse)
  have l: "py_lower [c] = ''q''"
  proof (rule disjE [OF assms(5)])
    assume "c = CHR ''q''"
    then show ?thesis by (simp add: py_lower_q)
  next
    assume "c = CHR ''Q''"
    then show ?thesis by (simp add: py_lower_q)
  qed
  show ?thesis
    unfolding m main_loop_quit [OF r g l]
    by (simp add: finish_bridge_def main_exit_def)
qed

end
